theory Spec2Isabelle
  imports Complex_Main "HOL-Library.AList" "HOL-Library.Log_Nat"
begin

section \<open>Common notions\<close>

text \<open>
  The repository holds two variants of the same server.  \<^verbatim>\<open>src/index.js\<close>
  (and its commented copy \<^verbatim>\<open>src/unnamed/part_000\<close>) scores the instances, has no
  timers and expires checkpoints in its cleanup job; its definitions carry the suffix
  \<open>1\<close> where a name would clash.  \<^verbatim>\<open>src/unnamed/part_001\<close> rotates the instances,
  arms one \<^verbatim>\<open>setTimeout\<close> per checkpoint and creates leads from the webhook; its
  definitions carry the suffix \<open>2\<close> where a name would clash.

  Modelling decisions, the same for both variants:
  \<^item> a JavaScript \<^verbatim>\<open>Map\<close> is an association list in insertion order
    (\<^const>\<open>AList.update\<close> keeps the position of an existing key and appends a new one,
    as \<^verbatim>\<open>Map.set\<close> does; \<^const>\<open>AList.delete\<close> is \<^verbatim>\<open>Map.delete\<close>;
    \<^const>\<open>map_of\<close> is \<^verbatim>\<open>Map.get\<close>);
  \<^item> a \<^verbatim>\<open>Date\<close> is its number of milliseconds, an \<^typ>\<open>int\<close>; every function
    takes the clock reading \<open>now\<close> of the call as a parameter;
  \<^item> a JavaScript number is a double.  The counters, the health scores and the clock
    readings are whole numbers, on which the arithmetic of doubles is exact, so they
    are \<^typ>\<open>int\<close>; the response rate moves in steps of one half between 0 and 100,
    again exactly, and is a \<^typ>\<open>rat\<close>.  The score of an instance is the one place
    where the program multiplies by 0.4, 0.3, 0.2 and 0.1: there every product and
    every sum is rounded as a double rounds it (\<open>binary64\<close> below);
  \<^item> a JavaScript string is the list of the bytes of its UTF-8 encoding, so that a
    character outside ASCII is two or three elements of the list;
  \<^item> a log entry keeps its timestamp and its type, not the text of its message;
    the random \<^verbatim>\<open>id\<close> and the formatted \<^verbatim>\<open>brazil_time\<close> of an entry are left out;
  \<^item> a call of the outbound notifier appends the event to a list of the state and
    counts one more request in flight; the answer of the network (or the failure of
    the request) is an event of its own, which appends the log entry that the
    notifier writes once the request has completed.
\<close>

datatype status = Active | Expired | Timeout

datatype error = NotFound | NotWaiting | TypeError

record logEntry =
  log_timestamp :: int
  log_type :: string

text \<open>\<^verbatim>\<open>str.replace(pat, '')\<close>: the first occurrence of \<open>pat\<close> is removed.\<close>

fun replace_first :: "string \<Rightarrow> string \<Rightarrow> string" where
  "replace_first pat [] = []"
| "replace_first pat (c # cs) =
     (if take (length pat) (c # cs) = pat then drop (length pat) (c # cs)
      else c # replace_first pat cs)"

text \<open>\<^verbatim>\<open>!messageContent.trim()\<close>: the text is empty once its white space is trimmed.
  \<^verbatim>\<open>String.prototype.trim\<close> strips the white space and the line terminators of
  ECMAScript: U+0009 to U+000D and U+0020 (one byte each), U+00A0 (two bytes), and
  U+1680, U+2000 to U+200A, U+2028, U+2029, U+202F, U+205F, U+3000 and U+FEFF (three
  bytes each).\<close>

definition js_whitespace1 :: "char \<Rightarrow> bool" where
  "js_whitespace1 a = (of_char a \<in> {0x09, 0x0A, 0x0B, 0x0C, 0x0D, 0x20 :: nat})"

definition js_whitespace2 :: "char \<Rightarrow> char \<Rightarrow> bool" where
  "js_whitespace2 a b = (of_char a = (0xC2 :: nat) \<and> of_char b = (0xA0 :: nat))"

definition js_whitespace3 :: "char \<Rightarrow> char \<Rightarrow> char \<Rightarrow> bool" where
  "js_whitespace3 a b c =
     (let x = of_char a :: nat; y = of_char b :: nat; z = of_char c :: nat
      in x = 0xE1 \<and> y = 0x9A \<and> z = 0x80 \<or>
         x = 0xE2 \<and> y = 0x80 \<and> (0x80 \<le> z \<and> z \<le> 0x8A \<or> z = 0xA8 \<or> z = 0xA9 \<or> z = 0xAF) \<or>
         x = 0xE2 \<and> y = 0x81 \<and> z = 0x9F \<or>
         x = 0xE3 \<and> y = 0x80 \<and> z = 0x80 \<or>
         x = 0xEF \<and> y = 0xBB \<and> z = 0xBF)"

fun trim_empty :: "string \<Rightarrow> bool" where
  "trim_empty [] = True"
| "trim_empty [a] = js_whitespace1 a"
| "trim_empty [a, b] = (if js_whitespace1 a then trim_empty [b] else js_whitespace2 a b)"
| "trim_empty (a # b # c # cs) =
     (if js_whitespace1 a then trim_empty (b # c # cs)
      else if js_whitespace2 a b then trim_empty (c # cs)
      else if js_whitespace3 a b c then trim_empty cs
      else False)"

text \<open>The arithmetic of doubles (IEEE 754 binary64, rounding to nearest, ties to even)
  on the numbers this program computes with.  \<open>pow2 e\<close> is \<open>2\<^sup>e\<close>; \<open>exponent x\<close> is the
  \<open>e\<close> with \<open>2\<^sup>e \<le> x < 2\<^sup>e\<^sup>+\<^sup>1\<close> of a positive \<open>x\<close>; \<open>binary64 x\<close> is the double nearest to
  \<open>x\<close>: a multiple of \<open>2\<^sup>e\<^sup>-\<^sup>5\<^sup>2\<close>, with 53 significant bits (below \<open>2\<^sup>-\<^sup>1\<^sup>0\<^sup>2\<^sup>2\<close> the
  doubles are the multiples of \<open>2\<^sup>-\<^sup>1\<^sup>0\<^sup>7\<^sup>4\<close>).  The overflow to infinity, from \<open>2\<^sup>1\<^sup>0\<^sup>2\<^sup>4\<close>
  on, is not modelled: no quantity of this program comes near it.\<close>

definition pow2 :: "int \<Rightarrow> rat" where
  "pow2 e = (if 0 \<le> e then 2 ^ nat e else 1 / 2 ^ nat (- e))"

definition roundEven :: "rat \<Rightarrow> int" where
  "roundEven x =
     (let n = \<lfloor>x\<rfloor>; r = x - of_int n
      in if r < 1 / 2 then n else if 1 / 2 < r then n + 1 else if even n then n else n + 1)"

definition exponent :: "rat \<Rightarrow> int" where
  "exponent x =
     (case quotient_of x of (p, q) \<Rightarrow>
        let e = bitlen p - bitlen q in if pow2 e \<le> x then e else e - 1)"

definition binary64 :: "rat \<Rightarrow> rat" where
  "binary64 x =
     (if x = 0 then 0
      else let e = max (exponent \<bar>x\<bar>) (- 1022) - 52
           in sgn x * of_int (roundEven (\<bar>x\<bar> / pow2 e)) * pow2 e)"

text \<open>The product and the sum of two doubles.\<close>

definition dmul :: "rat \<Rightarrow> rat \<Rightarrow> rat" where
  "dmul x y = binary64 (x * y)"

definition dadd :: "rat \<Rightarrow> rat \<Rightarrow> rat" where
  "dadd x y = binary64 (x + y)"

section \<open>The variant with timers (part 001)\<close>

subsection \<open>Data\<close>

definition CHECKPOINT_TIMEOUT :: int where
  "CHECKPOINT_TIMEOUT = 24 * 60 * 60 * 1000"

definition DATA_RETENTION_TIME2 :: int where
  "DATA_RETENTION_TIME2 = 72 * 60 * 60 * 1000"

definition INSTANCE_ROTATION_RESET :: nat where
  "INSTANCE_ROTATION_RESET = 1000"

record wa_instance =
  inst_name :: string
  inst_id :: string
  inst_active :: bool

definition INSTANCES2 :: "wa_instance list" where
  "INSTANCES2 =
     [\<lparr>inst_name = ''G08'', inst_id = ''A63C380B277D-4A5E-9ECD-48710291E5A6'',
       inst_active = True\<rparr>]"

record stats2 =
  i2_total_leads :: int
  i2_active_conversations :: int
  i2_checkpoints_passed :: int
  i2_timeouts :: int
  i2_last_activity :: int
  i2_health_score :: int
  i2_response_rate :: rat
  i2_blocked :: bool

text \<open>An element of \<^verbatim>\<open>conversation.checkpoints\<close>.  The name is the conversation's
  current checkpoint, which may be \<^verbatim>\<open>null\<close>; the response time is \<^verbatim>\<open>NaN\<close>
  (\<open>None\<close>) when no activation time was ever stored.\<close>

record checkpointData =
  cd_name :: "string option"
  cd_response :: string
  cd_passed_at :: int
  cd_response_time :: "int option"

record conv2 =
  c2_phone :: string
  c2_name :: string
  c2_instance :: string
  c2_instance_id :: string
  c2_source :: string
  c2_current_checkpoint :: "string option"
  c2_checkpoints :: "checkpointData list"
  c2_waiting_response :: bool
  c2_checkpoint_activated_at :: "int option"
  c2_created_at :: int
  c2_last_activity :: int
  c2_status :: status

record hist2 =
  h2_phone :: string
  h2_name :: string
  h2_checkpoint :: "string option"
  h2_response :: string
  h2_instance :: string
  h2_timestamp :: int

record dailyStats =
  d_leads_today :: int
  d_checkpoints_passed :: int
  d_timeouts :: int
  d_active_now :: int
  d_last_reset :: int

datatype notification2 =
    New_lead string string string string string string
  | Checkpoint_passed string "string option" string string
  | Checkpoint_timeout string string string

text \<open>A timer of the runtime: when it is due and the arguments its callback passes to
  \<^verbatim>\<open>handleCheckpointTimeout\<close>.\<close>

record timer =
  t_due :: int
  t_phone :: string
  t_checkpoint :: string

text \<open>The state of the process.  \<open>armedTimers\<close> and \<open>nextTimerId\<close> are the timer table of
  the runtime (\<^verbatim>\<open>setTimeout\<close> adds a handle, \<^verbatim>\<open>clearTimeout\<close> and firing remove it);
  \<open>checkpointTimeouts\<close> is the program's own map from keys to handles; \<open>notified\<close> are
  the events posted to the notifier and \<open>postsInFlight\<close> counts the posts that the
  network has not answered yet.\<close>

record sys2 =
  INSTANCES :: "wa_instance list"
  conversationState :: "(string \<times> conv2) list"
  checkpointTimeouts :: "(string \<times> nat) list"
  armedTimers :: "(nat \<times> timer) list"
  nextTimerId :: nat
  instanceStats :: "(string \<times> stats2) list"
  systemLogs :: "logEntry list"
  checkpointHistory :: "hist2 list"
  dailyStats :: dailyStats
  instanceRotationCounter :: nat
  totalLeadsProcessed :: nat
  notified :: "notification2 list"
  postsInFlight :: nat

subsection \<open>Utilities and instance management\<close>

definition addLog :: "int \<Rightarrow> string \<Rightarrow> sys2 \<Rightarrow> sys2" where
  "addLog now ty s =
     (let logs = \<lparr>log_timestamp = now, log_type = ty\<rparr> # systemLogs s
      in s\<lparr>systemLogs := (if length logs > 1000 then take 1000 logs else logs)\<rparr>)"

text \<open>\<^verbatim>\<open>notifyN8N\<close> posts the event and suspends; nothing of the state changes until
  the request completes.  Then it logs: \<^verbatim>\<open>n8n\<close> for an answer, \<^verbatim>\<open>error\<close> for a
  failure or for no answer within ten seconds.\<close>

definition notifyN8N :: "notification2 \<Rightarrow> sys2 \<Rightarrow> sys2" where
  "notifyN8N ev s = s\<lparr>notified := notified s @ [ev], postsInFlight := postsInFlight s + 1\<rparr>"

definition notifyN8N_completed :: "bool \<Rightarrow> int \<Rightarrow> sys2 \<Rightarrow> sys2" where
  "notifyN8N_completed success now s =
     (if postsInFlight s = 0 then s
      else addLog now (if success then ''n8n'' else ''error'')
             (s\<lparr>postsInFlight := postsInFlight s - 1\<rparr>))"

definition initialStats2 :: "int \<Rightarrow> stats2" where
  "initialStats2 now =
     \<lparr>i2_total_leads = 0, i2_active_conversations = 0, i2_checkpoints_passed = 0,
      i2_timeouts = 0, i2_last_activity = now, i2_health_score = 100,
      i2_response_rate = 100, i2_blocked = False\<rparr>"

definition initializeInstanceStats :: "int \<Rightarrow> sys2 \<Rightarrow> sys2" where
  "initializeInstanceStats now s =
     addLog now ''system''
       (s\<lparr>instanceStats :=
            fold (\<lambda>i m. AList.update (inst_name i) (initialStats2 now) m) (INSTANCES s)
              (instanceStats s)\<rparr>)"

definition available :: "sys2 \<Rightarrow> wa_instance \<Rightarrow> bool" where
  "available s i =
     (inst_active i \<and>
      (case map_of (instanceStats s) (inst_name i) of
         None \<Rightarrow> True
       | Some st \<Rightarrow> \<not> i2_blocked st))"

text \<open>\<^verbatim>\<open>INSTANCES[0]\<close> of an empty array is \<^verbatim>\<open>undefined\<close>: the result \<open>None\<close>.\<close>

definition getNextInstance :: "int \<Rightarrow> sys2 \<Rightarrow> wa_instance option \<times> sys2" where
  "getNextInstance now s =
     (let availableInstances = filter (available s) (INSTANCES s) in
      if length availableInstances = 0 then
        (case INSTANCES s of [] \<Rightarrow> None | i # _ \<Rightarrow> Some i, addLog now ''warning'' s)
      else
        let inst = availableInstances !
                     (instanceRotationCounter s mod length availableInstances);
            c = instanceRotationCounter s + 1;
            s1 = s\<lparr>instanceRotationCounter :=
                      (if c > INSTANCE_ROTATION_RESET then 0 else c)\<rparr>;
            s2 = (case map_of (instanceStats s1) (inst_name inst) of
                    None \<Rightarrow> s1
                  | Some st \<Rightarrow>
                      s1\<lparr>instanceStats :=
                           AList.update (inst_name inst)
                             (st\<lparr>i2_total_leads := i2_total_leads st + 1,
                                 i2_active_conversations := i2_active_conversations st + 1,
                                 i2_last_activity := now\<rparr>)
                             (instanceStats s1)\<rparr>)
        in (Some inst, s2))"

definition statsEvent2 :: "string \<Rightarrow> stats2 \<Rightarrow> stats2" where
  "statsEvent2 event st =
     (if event = ''checkpoint_passed'' then
        st\<lparr>i2_checkpoints_passed := i2_checkpoints_passed st + 1,
            i2_response_rate := min 100 (i2_response_rate st + 1 / 2),
            i2_health_score := min 100 (i2_health_score st + 1)\<rparr>
      else if event = ''timeout'' then
        st\<lparr>i2_timeouts := i2_timeouts st + 1,
            i2_response_rate := max 0 (i2_response_rate st - 2),
            i2_health_score := max 0 (i2_health_score st - 3)\<rparr>
      else if event = ''conversation_ended'' then
        st\<lparr>i2_active_conversations := max 0 (i2_active_conversations st - 1)\<rparr>
      else if event = ''blocked'' then
        st\<lparr>i2_blocked := True, i2_health_score := 0\<rparr>
      else st)"

definition updateInstanceStats2 :: "string \<Rightarrow> string \<Rightarrow> int \<Rightarrow> sys2 \<Rightarrow> sys2" where
  "updateInstanceStats2 instanceName event now s =
     (case map_of (instanceStats s) instanceName of
        None \<Rightarrow> s
      | Some st \<Rightarrow>
          let s1 = (if event = ''blocked'' then addLog now ''error'' s else s)
          in s1\<lparr>instanceStats :=
                  AList.update instanceName
                    ((statsEvent2 event st)\<lparr>i2_last_activity := now\<rparr>)
                    (instanceStats s1)\<rparr>)"

subsection \<open>Timers\<close>

definition timeoutKey :: "string \<Rightarrow> string option \<Rightarrow> string" where
  "timeoutKey phone ck =
     phone @ ''_'' @ (case ck of None \<Rightarrow> ''null'' | Some k \<Rightarrow> k)"

text \<open>The delay that the runtime gives a timer: Node.js replaces a delay below 1 or
  above \<open>2\<^sup>3\<^sup>1 - 1\<close> milliseconds by 1 millisecond.\<close>

definition timerDelay :: "int \<Rightarrow> int" where
  "timerDelay delay = (if 1 \<le> delay \<and> delay \<le> 2147483647 then delay else 1)"

text \<open>\<^verbatim>\<open>setTimeout(() => handleCheckpointTimeout(phone, checkpointName), delay)\<close>
  at clock reading \<open>now\<close>.\<close>

definition setTimeout :: "int \<Rightarrow> int \<Rightarrow> string \<Rightarrow> string \<Rightarrow> sys2 \<Rightarrow> nat \<times> sys2" where
  "setTimeout delay now phone ck s =
     (nextTimerId s,
      s\<lparr>armedTimers :=
           armedTimers s @
             [(nextTimerId s,
               \<lparr>t_due = now + timerDelay delay, t_phone = phone, t_checkpoint = ck\<rparr>)],
        nextTimerId := nextTimerId s + 1\<rparr>)"

definition clearTimeout :: "nat \<Rightarrow> sys2 \<Rightarrow> sys2" where
  "clearTimeout tid s = s\<lparr>armedTimers := AList.delete tid (armedTimers s)\<rparr>"

text \<open>The idiom
  \<^verbatim>\<open>if (checkpointTimeouts.has(k)) { clearTimeout(checkpointTimeouts.get(k)); checkpointTimeouts.delete(k); }\<close>
  that \<^verbatim>\<open>activateCheckpoint\<close>, \<^verbatim>\<open>processCheckpointResponse\<close> and
  \<^verbatim>\<open>cleanupOldData\<close> each write out.\<close>

definition cancelTimeoutKey :: "string \<Rightarrow> sys2 \<Rightarrow> sys2" where
  "cancelTimeoutKey k s =
     (case map_of (checkpointTimeouts s) k of
        None \<Rightarrow> s
      | Some tid \<Rightarrow>
          (clearTimeout tid s)\<lparr>checkpointTimeouts := AList.delete k (checkpointTimeouts s)\<rparr>)"

subsection \<open>Checkpoints\<close>

definition createConversation ::
  "string \<Rightarrow> string \<Rightarrow> string \<Rightarrow> int \<Rightarrow> sys2 \<Rightarrow> (error + conv2) \<times> sys2" where
  "createConversation phone name source now s =
     (case getNextInstance now s of
        (None, s1) \<Rightarrow> (Inl TypeError, s1)
      | (Some inst, s1) \<Rightarrow>
          let conversation =
                \<lparr>c2_phone = phone, c2_name = name, c2_instance = inst_name inst,
                 c2_instance_id = inst_id inst, c2_source = source,
                 c2_current_checkpoint = None, c2_checkpoints = [],
                 c2_waiting_response = False, c2_checkpoint_activated_at = None,
                 c2_created_at = now, c2_last_activity = now, c2_status = Active\<rparr>;
              s2 = s1\<lparr>conversationState :=
                        AList.update phone conversation (conversationState s1)\<rparr>;
              s3 = s2\<lparr>totalLeadsProcessed := totalLeadsProcessed s2 + 1,
                      dailyStats :=
                        (dailyStats s2)\<lparr>d_leads_today := d_leads_today (dailyStats s2) + 1,
                                        d_active_now := int (length (conversationState s2))\<rparr>\<rparr>
          in (Inr conversation, addLog now ''conversation'' s3))"

record activateResult2 =
  ar2_checkpoint :: string
  ar2_instance :: string
  ar2_instance_id :: string

text \<open>\<^verbatim>\<open>options.timeout_minutes || 1440\<close>: a missing or zero value gives 1440.  The
  minutes of a request are a whole number here, so that the delay in milliseconds is
  computed exactly.\<close>

definition timeoutMinutes :: "int option \<Rightarrow> int" where
  "timeoutMinutes opt = (case opt of None \<Rightarrow> 1440 | Some m \<Rightarrow> if m = 0 then 1440 else m)"

definition activateCheckpoint2 ::
  "string \<Rightarrow> string \<Rightarrow> int option \<Rightarrow> int \<Rightarrow> sys2 \<Rightarrow> (error + activateResult2) \<times> sys2" where
  "activateCheckpoint2 phone checkpointName timeout_minutes now s =
     (case map_of (conversationState s) phone of
        None \<Rightarrow> (Inl NotFound, addLog now ''error'' s)
      | Some conversation \<Rightarrow>
          let s1 = cancelTimeoutKey (timeoutKey phone (c2_current_checkpoint conversation)) s;
              conversation' =
                conversation\<lparr>c2_current_checkpoint := Some checkpointName,
                             c2_waiting_response := True,
                             c2_checkpoint_activated_at := Some now,
                             c2_last_activity := now\<rparr>;
              (timeoutId, s2) =
                setTimeout (timeoutMinutes timeout_minutes * 60 * 1000) now
                  phone checkpointName s1;
              s3 = s2\<lparr>checkpointTimeouts :=
                        AList.update (timeoutKey phone (Some checkpointName)) timeoutId
                          (checkpointTimeouts s2)\<rparr>;
              s4 = s3\<lparr>conversationState :=
                        AList.update phone conversation' (conversationState s3)\<rparr>
          in (Inr \<lparr>ar2_checkpoint = checkpointName,
                    ar2_instance = c2_instance conversation,
                    ar2_instance_id = c2_instance_id conversation\<rparr>,
              addLog now ''checkpoint'' s4))"

definition handleCheckpointTimeout :: "string \<Rightarrow> string \<Rightarrow> int \<Rightarrow> sys2 \<Rightarrow> sys2" where
  "handleCheckpointTimeout phone checkpointName now s =
     (case map_of (conversationState s) phone of
        None \<Rightarrow> s
      | Some conversation \<Rightarrow>
          if c2_current_checkpoint conversation \<noteq> Some checkpointName then s
          else
            let conversation' =
                  conversation\<lparr>c2_waiting_response := False, c2_status := Timeout\<rparr>;
                s1 = s\<lparr>conversationState :=
                         AList.update phone conversation' (conversationState s)\<rparr>;
                s2 = updateInstanceStats2 (c2_instance conversation) ''timeout'' now s1;
                s3 = s2\<lparr>dailyStats :=
                          (dailyStats s2)\<lparr>d_timeouts := d_timeouts (dailyStats s2) + 1\<rparr>\<rparr>;
                s4 = addLog now ''timeout'' s3
            in notifyN8N (Checkpoint_timeout phone checkpointName (c2_instance conversation)) s4)"

record responseResult2 =
  rr2_checkpoint :: "string option"
  rr2_response :: string
  rr2_instance :: string

definition processCheckpointResponse ::
  "string \<Rightarrow> string \<Rightarrow> int \<Rightarrow> sys2 \<Rightarrow> (error + responseResult2) \<times> sys2" where
  "processCheckpointResponse phone message now s =
     (case map_of (conversationState s) phone of
        None \<Rightarrow> (Inl NotFound, s)
      | Some conversation \<Rightarrow>
          if \<not> c2_waiting_response conversation then (Inl NotWaiting, addLog now ''info'' s)
          else
            let checkpointName = c2_current_checkpoint conversation;
                s1 = cancelTimeoutKey (timeoutKey phone checkpointName) s;
                checkpointData =
                  \<lparr>cd_name = checkpointName, cd_response = message, cd_passed_at = now,
                   cd_response_time =
                     map_option (\<lambda>t. now - t) (c2_checkpoint_activated_at conversation)\<rparr>;
                conversation' =
                  conversation\<lparr>c2_checkpoints := c2_checkpoints conversation @ [checkpointData],
                               c2_waiting_response := False,
                               c2_last_activity := now\<rparr>;
                s2 = s1\<lparr>conversationState :=
                          AList.update phone conversation' (conversationState s1)\<rparr>;
                s3 = updateInstanceStats2 (c2_instance conversation) ''checkpoint_passed'' now s2;
                s4 = s3\<lparr>dailyStats :=
                          (dailyStats s3)\<lparr>d_checkpoints_passed :=
                                            d_checkpoints_passed (dailyStats s3) + 1\<rparr>\<rparr>;
                h = \<lparr>h2_phone = phone, h2_name = c2_name conversation,
                     h2_checkpoint = checkpointName, h2_response = message,
                     h2_instance = c2_instance conversation, h2_timestamp = now\<rparr> #
                    checkpointHistory s4;
                s5 = s4\<lparr>checkpointHistory := (if length h > 500 then take 500 h else h)\<rparr>
            in (Inr \<lparr>rr2_checkpoint = checkpointName, rr2_response = message,
                      rr2_instance = c2_instance conversation\<rparr>,
                addLog now ''checkpoint'' s5))"

subsection \<open>Automatic cleaning\<close>

text \<open>\<^verbatim>\<open>toDateString\<close> compares calendar days; the day is the number of whole days of the
  clock reading (a server running in UTC).\<close>

definition toDateString :: "int \<Rightarrow> int" where
  "toDateString t = t div 86400000"

text \<open>One round of the loop over \<^verbatim>\<open>conversationState.entries()\<close>.  The loop deletes
  only the entry it is visiting, so it visits the entries the map had at the start.\<close>

definition cleanupEntry2 :: "int \<Rightarrow> string \<times> conv2 \<Rightarrow> sys2 \<times> nat \<Rightarrow> sys2 \<times> nat" where
  "cleanupEntry2 now e sc =
     (case (e, sc) of ((phone, conv), (s, cleaned)) \<Rightarrow>
        if now - c2_last_activity conv > DATA_RETENTION_TIME2 then
          let s1 = s\<lparr>conversationState := AList.delete phone (conversationState s)\<rparr>;
              s2 = cancelTimeoutKey (timeoutKey phone (c2_current_checkpoint conv)) s1;
              s3 = updateInstanceStats2 (c2_instance conv) ''conversation_ended'' now s2
          in (s3, cleaned + 1)
        else (s, cleaned))"

definition cleanupOldData :: "int \<Rightarrow> sys2 \<Rightarrow> sys2" where
  "cleanupOldData now s =
     (let (s1, cleaned) = fold (cleanupEntry2 now) (conversationState s) (s, 0);
          s2 = s1\<lparr>systemLogs :=
                    filter (\<lambda>l. log_timestamp l > now - DATA_RETENTION_TIME2) (systemLogs s1)\<rparr>;
          s3 = s2\<lparr>checkpointHistory :=
                    filter (\<lambda>h. h2_timestamp h > now - DATA_RETENTION_TIME2)
                      (checkpointHistory s2)\<rparr>;
          s4 = (if toDateString (d_last_reset (dailyStats s3)) \<noteq> toDateString now then
                  addLog now ''system''
                    (s3\<lparr>dailyStats :=
                          \<lparr>d_leads_today = 0, d_checkpoints_passed = 0, d_timeouts = 0,
                           d_active_now = int (length (conversationState s3)),
                           d_last_reset = now\<rparr>\<rparr>)
                else s3);
          s5 = s4\<lparr>dailyStats :=
                    (dailyStats s4)\<lparr>d_active_now := int (length (conversationState s4))\<rparr>\<rparr>
      in if cleaned > 0 then addLog now ''cleanup'' s5 else s5)"

subsection \<open>The endpoints and the events of a run\<close>

text \<open>\<^verbatim>\<open>POST /api/lead/new\<close>.  An exception in the handler is caught and logged.\<close>

definition api_lead_new ::
  "string \<Rightarrow> string \<Rightarrow> string \<Rightarrow> string \<Rightarrow> int \<Rightarrow> sys2 \<Rightarrow> sys2" where
  "api_lead_new phone name message source now s =
     (if phone = [] then s
      else if map_of (conversationState s) phone \<noteq> None then addLog now ''info'' s
      else
        (case createConversation phone name source now s of
           (Inl e, s1) \<Rightarrow> addLog now ''error'' s1
         | (Inr conversation, s1) \<Rightarrow>
             notifyN8N (New_lead phone name (c2_instance conversation)
                          (c2_instance_id conversation) message source) s1))"

text \<open>\<^verbatim>\<open>POST /api/checkpoint/activate\<close>.\<close>

definition api_checkpoint_activate ::
  "string \<Rightarrow> string \<Rightarrow> int option \<Rightarrow> int \<Rightarrow> sys2 \<Rightarrow> sys2" where
  "api_checkpoint_activate phone checkpoint_name timeout_minutes now s =
     (if phone = [] \<or> checkpoint_name = [] then s
      else snd (activateCheckpoint2 phone checkpoint_name timeout_minutes now s))"

text \<open>\<^verbatim>\<open>POST /webhook/evolution\<close>, for a body that has \<^verbatim>\<open>data.key\<close>.\<close>

definition webhook_evolution2 :: "string \<Rightarrow> bool \<Rightarrow> string \<Rightarrow> int \<Rightarrow> sys2 \<Rightarrow> sys2" where
  "webhook_evolution2 remoteJid fromMe messageContent now s =
     (let phone = replace_first ''@s.whatsapp.net'' remoteJid in
      if fromMe then s
      else if trim_empty messageContent then s
      else
        let s1 = addLog now ''evolution'' s in
        if map_of (conversationState s1) phone = None then
          (case createConversation phone ''Cliente'' ''whatsapp_direto'' now s1 of
             (Inl e, s2) \<Rightarrow> addLog now ''error'' s2
           | (Inr conversation, s2) \<Rightarrow>
               notifyN8N (New_lead phone ''Cliente'' (c2_instance conversation)
                            (c2_instance_id conversation) messageContent ''whatsapp_direto'')
                 (addLog now ''auto_lead'' s2))
        else
          (case processCheckpointResponse phone messageContent now s1 of
             (Inl e, s2) \<Rightarrow> s2
           | (Inr result, s2) \<Rightarrow>
               notifyN8N (Checkpoint_passed phone (rr2_checkpoint result)
                            (rr2_response result) (rr2_instance result)) s2))"

text \<open>\<^verbatim>\<open>POST /api/instance/block\<close>: \<^verbatim>\<open>INSTANCES.find\<close> gives the first instance of that
  name, whose \<^verbatim>\<open>active\<close> flag is cleared.\<close>

fun deactivate :: "string \<Rightarrow> wa_instance list \<Rightarrow> wa_instance list" where
  "deactivate n [] = []"
| "deactivate n (i # is) =
     (if inst_name i = n then i\<lparr>inst_active := False\<rparr> # is else i # deactivate n is)"

definition api_instance_block :: "string \<Rightarrow> int \<Rightarrow> sys2 \<Rightarrow> sys2" where
  "api_instance_block instance_name now s =
     (case find (\<lambda>i. inst_name i = instance_name) (INSTANCES s) of
        None \<Rightarrow> s
      | Some _ \<Rightarrow>
          addLog now ''warning''
            (updateInstanceStats2 instance_name ''blocked'' now
               (s\<lparr>INSTANCES := deactivate instance_name (INSTANCES s)\<rparr>)))"

text \<open>The runtime fires an armed timer that is due: the handle leaves the timer table
  and the callback runs.\<close>

definition fireTimer :: "nat \<Rightarrow> int \<Rightarrow> sys2 \<Rightarrow> sys2" where
  "fireTimer tid now s =
     (case map_of (armedTimers s) tid of
        None \<Rightarrow> s
      | Some t \<Rightarrow>
          if now < t_due t then s
          else handleCheckpointTimeout (t_phone t) (t_checkpoint t) now
                 (s\<lparr>armedTimers := AList.delete tid (armedTimers s)\<rparr>))"

datatype event2 =
    Lead_new string string string string int
  | Checkpoint_activate string string "int option" int
  | Webhook2 string bool string int
  | Instance_block string int
  | Timer_fired nat int
  | Cleanup2 int
  | Notifier_answered bool int

fun step2 :: "event2 \<Rightarrow> sys2 \<Rightarrow> sys2" where
  "step2 (Lead_new phone name message source now) s = api_lead_new phone name message source now s"
| "step2 (Checkpoint_activate phone ck tm now) s = api_checkpoint_activate phone ck tm now s"
| "step2 (Webhook2 jid fromMe txt now) s = webhook_evolution2 jid fromMe txt now s"
| "step2 (Instance_block n now) s = api_instance_block n now s"
| "step2 (Timer_fired tid now) s = fireTimer tid now s"
| "step2 (Cleanup2 now) s = cleanupOldData now s"
| "step2 (Notifier_answered success now) s = notifyN8N_completed success now s"

definition run2 :: "event2 list \<Rightarrow> sys2 \<Rightarrow> sys2" where
  "run2 evs s = fold step2 evs s"

text \<open>The state once the module is loaded, at clock reading \<open>now\<close>.\<close>

definition init2 :: "int \<Rightarrow> sys2" where
  "init2 now =
     addLog now ''system''
       (initializeInstanceStats now
          \<lparr>INSTANCES = INSTANCES2, conversationState = [], checkpointTimeouts = [],
           armedTimers = [], nextTimerId = 0, instanceStats = [], systemLogs = [],
           checkpointHistory = [],
           dailyStats = \<lparr>d_leads_today = 0, d_checkpoints_passed = 0, d_timeouts = 0,
                          d_active_now = 0, d_last_reset = now\<rparr>,
           instanceRotationCounter = 0, totalLeadsProcessed = 0, notified = [],
           postsInFlight = 0\<rparr>)"

section \<open>The variant without timers (index.js)\<close>

subsection \<open>Data\<close>

definition DATA_RETENTION_TIME1 :: int where
  "DATA_RETENTION_TIME1 = 48 * 60 * 60 * 1000"

definition INSTANCES1 :: "(string \<times> string) list" where
  "INSTANCES1 =
     [(''G01'', ''584F8ACCAA48-488D-A26E-E75E1A5B2994''),
      (''G02'', ''2E2C41AB88F9-4356-B866-9ADA88530FD0''),
      (''G03'', ''9AFECAC9683B-4611-8C51-933447B70905''),
      (''G04'', ''C974682BB258-4756-98F0-CF6D90FC2755''),
      (''G05'', ''118E0162F12C-4841-ADD6-33E11DDB341A''),
      (''G06'', ''4AC271E7BBEA-4A2B-BB2D-3583BDE4AE1E''),
      (''G07T'', ''E28170C3375C-4116-8723-144CC9B90994''),
      (''G09'', ''E667206D3C72-4F8B-AD10-F933F273A39B''),
      (''G10'', ''D6932E02E658-40BD-9784-8932841CCFA4''),
      (''G11'', ''A1A28E54D712-41B9-A682-A49072EA2C0B'')]"

record stats1 =
  i1_total_leads :: int
  i1_active_conversations :: int
  i1_completed_conversations :: int
  i1_response_rate :: rat
  i1_last_activity :: int
  i1_health_score :: int
  i1_blocked :: bool

record response1 =
  r1_checkpoint_id :: "string option"
  r1_message :: string
  r1_timestamp :: int
  r1_response_time :: int

record passed1 =
  p1_checkpoint_id :: "string option"
  p1_passed_at :: int
  p1_response_message :: string

record conv1 =
  c1_client_phone :: string
  c1_client_name :: string
  c1_instance :: string
  c1_current_checkpoint :: "string option"
  c1_checkpoint_history :: "passed1 list"
  c1_responses :: "response1 list"
  c1_created_at :: int
  c1_last_activity :: int
  c1_expires_at :: int
  c1_status :: status
  c1_total_checkpoints_passed :: int
  c1_waiting_for_response :: bool
  c1_last_system_message :: "string option"
  c1_step_data :: "string option"

record hist1 =
  h1_client_phone :: string
  h1_client_name :: string
  h1_checkpoint_id :: "string option"
  h1_response_message :: string
  h1_instance :: string
  h1_timestamp :: int
  h1_response_time_ms :: int

record eventData1 =
  e1_client_phone :: string
  e1_checkpoint_id :: "string option"
  e1_response_message :: string
  e1_total_checkpoints_passed :: int
  e1_instance :: string
  e1_instance_apikey :: "string option"

record sys1 =
  conversationState1 :: "(string \<times> conv1) list"
  clientInstanceMap :: "(string \<times> string \<times> int) list"
  systemLogs1 :: "logEntry list"
  checkpointHistory1 :: "hist1 list"
  instanceStats1 :: "(string \<times> stats1) list"
  instanceCounter :: nat
  notified1 :: "eventData1 list"
  postsInFlight1 :: nat

subsection \<open>Instances\<close>

definition addLog1 :: "int \<Rightarrow> string \<Rightarrow> sys1 \<Rightarrow> sys1" where
  "addLog1 now ty s = s\<lparr>systemLogs1 := systemLogs1 s @ [\<lparr>log_timestamp = now, log_type = ty\<rparr>]\<rparr>"

definition getInstanceApiKey :: "string \<Rightarrow> string option" where
  "getInstanceApiKey instanceName =
     map_option snd (find (\<lambda>i. fst i = instanceName) INSTANCES1)"

definition initialStats1 :: "int \<Rightarrow> stats1" where
  "initialStats1 now =
     \<lparr>i1_total_leads = 0, i1_active_conversations = 0, i1_completed_conversations = 0,
      i1_response_rate = 100, i1_last_activity = now, i1_health_score = 100,
      i1_blocked = False\<rparr>"

definition initializeInstanceStats1 :: "int \<Rightarrow> sys1 \<Rightarrow> sys1" where
  "initializeInstanceStats1 now s =
     s\<lparr>instanceStats1 :=
         fold (\<lambda>i m. AList.update (fst i) (initialStats1 now) m) INSTANCES1 (instanceStats1 s)\<rparr>"

definition statsEvent1 :: "string \<Rightarrow> int \<Rightarrow> stats1 \<Rightarrow> stats1" where
  "statsEvent1 action now st =
     (if action = ''new_lead'' then
        st\<lparr>i1_total_leads := i1_total_leads st + 1,
            i1_active_conversations := i1_active_conversations st + 1,
            i1_last_activity := now\<rparr>
      else if action = ''response_received'' then
        st\<lparr>i1_response_rate := min 100 (i1_response_rate st + 1 / 2),
            i1_health_score := min 100 (i1_health_score st + 1)\<rparr>
      else if action = ''no_response'' then
        st\<lparr>i1_response_rate := max 0 (i1_response_rate st - 2),
            i1_health_score := max 0 (i1_health_score st - 5)\<rparr>
      else if action = ''conversation_complete'' then
        st\<lparr>i1_active_conversations := i1_active_conversations st - 1,
            i1_completed_conversations := i1_completed_conversations st + 1\<rparr>
      else if action = ''blocked'' then
        st\<lparr>i1_blocked := True, i1_health_score := 0\<rparr>
      else st)"

definition updateInstanceStats1 :: "string \<Rightarrow> string \<Rightarrow> int \<Rightarrow> sys1 \<Rightarrow> sys1" where
  "updateInstanceStats1 instanceName action now s =
     (case map_of (instanceStats1 s) instanceName of
        None \<Rightarrow> s
      | Some st \<Rightarrow>
          s\<lparr>instanceStats1 :=
              AList.update instanceName (statsEvent1 action now st) (instanceStats1 s)\<rparr>)"

text \<open>The score of an instance, as the loop of \<^verbatim>\<open>getBestInstance\<close> computes it:
  \<^verbatim>\<open>(loadFactor * 0.4) + (responseFactor * 0.3) + (healthFactor * 0.2) + (timeFactor * 0.1)\<close>,
  where each literal is the double nearest to it and the sums associate to the left.\<close>

definition finalScore :: "int \<Rightarrow> stats1 \<Rightarrow> rat" where
  "finalScore now stats =
     (let loadFactor = max 0 (100 - i1_active_conversations stats * 2);
          responseFactor = i1_response_rate stats;
          healthFactor = i1_health_score stats;
          timeFactor = (if now - i1_last_activity stats < 300000 then 10 else 0 :: int)
      in dadd (dadd (dadd (dmul (of_int loadFactor) (binary64 (4 / 10)))
                          (dmul responseFactor (binary64 (3 / 10))))
                    (dmul (of_int healthFactor) (binary64 (2 / 10))))
              (dmul (of_int timeFactor) (binary64 (1 / 10))))"

text \<open>The loop of \<^verbatim>\<open>getBestInstance\<close> over \<^verbatim>\<open>instanceStats.entries()\<close>, with its two
  variables \<^verbatim>\<open>bestInstance\<close> and \<^verbatim>\<open>bestScore\<close>.\<close>

fun bestLoop ::
  "int \<Rightarrow> (string \<times> stats1) list \<Rightarrow> string option \<times> rat \<Rightarrow> string option \<times> rat" where
  "bestLoop now [] acc = acc"
| "bestLoop now ((instanceName, stats) # rest) (bestInstance, bestScore) =
     (if i1_blocked stats then bestLoop now rest (bestInstance, bestScore)
      else if finalScore now stats > bestScore
        then bestLoop now rest (Some instanceName, finalScore now stats)
        else bestLoop now rest (bestInstance, bestScore))"

text \<open>A value that is \<^verbatim>\<open>null\<close>, \<^verbatim>\<open>undefined\<close> or the empty string is falsy:
  \<^verbatim>\<open>!bestInstance\<close>, \<^verbatim>\<open>!state.current_checkpoint\<close>, \<^verbatim>\<open>if (data.message)\<close>.\<close>

definition falsy :: "string option \<Rightarrow> bool" where
  "falsy v = (case v of None \<Rightarrow> True | Some x \<Rightarrow> x = [])"

definition getBestInstance :: "int \<Rightarrow> sys1 \<Rightarrow> string \<times> sys1" where
  "getBestInstance now s =
     (let fallback = (fst (INSTANCES1 ! (instanceCounter s mod length INSTANCES1)),
                      s\<lparr>instanceCounter := instanceCounter s + 1\<rparr>)
      in case fst (bestLoop now (instanceStats1 s) (None, - 1)) of
           None \<Rightarrow> fallback
         | Some bestInstance \<Rightarrow> if bestInstance = [] then fallback else (bestInstance, s))"

subsection \<open>Checkpoints\<close>

definition createConversationState :: "string \<Rightarrow> string \<Rightarrow> string \<Rightarrow> int \<Rightarrow> conv1" where
  "createConversationState clientPhone clientName instanceName now =
     \<lparr>c1_client_phone = clientPhone, c1_client_name = clientName, c1_instance = instanceName,
      c1_current_checkpoint = None, c1_checkpoint_history = [], c1_responses = [],
      c1_created_at = now, c1_last_activity = now, c1_expires_at = now + CHECKPOINT_TIMEOUT,
      c1_status = Active, c1_total_checkpoints_passed = 0, c1_waiting_for_response = False,
      c1_last_system_message = None, c1_step_data = None\<rparr>"

definition activateCheckpoint1 ::
  "string \<Rightarrow> string \<Rightarrow> string option \<Rightarrow> string option \<Rightarrow> int \<Rightarrow> sys1 \<Rightarrow> (error + string \<times> string) \<times> sys1" where
  "activateCheckpoint1 clientPhone checkpointId message step_data now s =
     (case map_of (conversationState1 s) clientPhone of
        None \<Rightarrow> (Inl NotFound, addLog1 now ''error'' s)
      | Some state \<Rightarrow>
          let state1 = state\<lparr>c1_current_checkpoint := Some checkpointId,
                             c1_waiting_for_response := True,
                             c1_last_activity := now,
                             c1_expires_at := now + CHECKPOINT_TIMEOUT\<rparr>;
              state2 = (if falsy message then state1
                        else state1\<lparr>c1_last_system_message := message\<rparr>);
              state3 = (if falsy step_data then state2 else state2\<lparr>c1_step_data := step_data\<rparr>);
              s1 = s\<lparr>conversationState1 :=
                       AList.update clientPhone state3 (conversationState1 s)\<rparr>
          in (Inr (checkpointId, clientPhone), addLog1 now ''checkpoint'' s1))"

record responseResult1 =
  rr1_checkpoint_passed :: "string option"
  rr1_client :: string
  rr1_response :: string
  rr1_total_passed :: int

definition processClientResponse ::
  "string \<Rightarrow> string \<Rightarrow> int \<Rightarrow> sys1 \<Rightarrow> (error + responseResult1) \<times> sys1" where
  "processClientResponse clientPhone responseMessage now s =
     (case map_of (conversationState1 s) clientPhone of
        None \<Rightarrow> (Inl NotFound, addLog1 now ''warning'' s)
      | Some state \<Rightarrow>
          if \<not> c1_waiting_for_response state \<or> falsy (c1_current_checkpoint state)
          then (Inl NotWaiting, addLog1 now ''info'' s)
          else
            let response =
                  \<lparr>r1_checkpoint_id = c1_current_checkpoint state, r1_message = responseMessage,
                   r1_timestamp = now, r1_response_time = now - c1_last_activity state\<rparr>;
                passedCheckpoint = c1_current_checkpoint state;
                state' =
                  state\<lparr>c1_responses := c1_responses state @ [response],
                        c1_checkpoint_history :=
                          c1_checkpoint_history state @
                            [\<lparr>p1_checkpoint_id = c1_current_checkpoint state, p1_passed_at = now,
                              p1_response_message = responseMessage\<rparr>],
                        c1_total_checkpoints_passed := c1_total_checkpoints_passed state + 1,
                        c1_waiting_for_response := False,
                        c1_last_activity := now,
                        c1_current_checkpoint := None\<rparr>;
                s1 = updateInstanceStats1 (c1_instance state) ''response_received'' now s;
                s2 = s1\<lparr>conversationState1 :=
                          AList.update clientPhone state' (conversationState1 s1)\<rparr>;
                s3 = s2\<lparr>checkpointHistory1 :=
                          \<lparr>h1_client_phone = clientPhone, h1_client_name = c1_client_name state,
                           h1_checkpoint_id = passedCheckpoint,
                           h1_response_message = responseMessage,
                           h1_instance = c1_instance state, h1_timestamp = now,
                           h1_response_time_ms = r1_response_time response\<rparr> #
                          checkpointHistory1 s2\<rparr>
            in (Inr \<lparr>rr1_checkpoint_passed = passedCheckpoint, rr1_client = clientPhone,
                      rr1_response = responseMessage,
                      rr1_total_passed = c1_total_checkpoints_passed state'\<rparr>,
                addLog1 now ''checkpoint'' s3))"

subsection \<open>The endpoints, the cleanup job and the events of a run\<close>

text \<open>\<^verbatim>\<open>POST /api/start-conversation\<close>; \<^verbatim>\<open>client_name || 'Cliente'\<close>.\<close>

definition api_start_conversation :: "string \<Rightarrow> string option \<Rightarrow> int \<Rightarrow> sys1 \<Rightarrow> sys1" where
  "api_start_conversation client_phone client_name now s =
     (if client_phone = [] then s
      else if map_of (conversationState1 s) client_phone \<noteq> None then addLog1 now ''info'' s
      else
        let (instanceName, s1) = getBestInstance now s;
            s2 = updateInstanceStats1 instanceName ''new_lead'' now s1;
            state = createConversationState client_phone
                      (case client_name of
                         None \<Rightarrow> ''Cliente''
                       | Some n \<Rightarrow> if n = [] then ''Cliente'' else n)
                      instanceName now;
            s3 = s2\<lparr>conversationState1 :=
                      AList.update client_phone state (conversationState1 s2)\<rparr>;
            s4 = s3\<lparr>clientInstanceMap :=
                      AList.update client_phone (instanceName, now) (clientInstanceMap s3)\<rparr>
        in addLog1 now ''conversation'' s4)"

text \<open>\<^verbatim>\<open>POST /api/activate-checkpoint\<close>.\<close>

definition api_activate_checkpoint ::
  "string \<Rightarrow> string \<Rightarrow> string option \<Rightarrow> string option \<Rightarrow> int \<Rightarrow> sys1 \<Rightarrow> sys1" where
  "api_activate_checkpoint client_phone checkpoint_id message step_data now s =
     (if client_phone = [] \<or> checkpoint_id = [] then s
      else snd (activateCheckpoint1 client_phone checkpoint_id message step_data now s))"

text \<open>\<^verbatim>\<open>sendToN8N\<close> logs, posts the event and suspends.  Once the request has
  completed it logs again: \<^verbatim>\<open>webhook_sent\<close> for an answer, \<^verbatim>\<open>error\<close> for a failure.\<close>

definition sendToN8N :: "eventData1 \<Rightarrow> int \<Rightarrow> sys1 \<Rightarrow> sys1" where
  "sendToN8N eventData now s =
     (let s1 = addLog1 now ''info'' s
      in s1\<lparr>notified1 := notified1 s1 @ [eventData], postsInFlight1 := postsInFlight1 s1 + 1\<rparr>)"

definition sendToN8N_completed :: "bool \<Rightarrow> int \<Rightarrow> sys1 \<Rightarrow> sys1" where
  "sendToN8N_completed success now s =
     (if postsInFlight1 s = 0 then s
      else addLog1 now (if success then ''webhook_sent'' else ''error'')
             (s\<lparr>postsInFlight1 := postsInFlight1 s - 1\<rparr>))"

text \<open>\<^verbatim>\<open>POST /webhook/evolution\<close>, for a body that has \<^verbatim>\<open>data.key\<close>.\<close>

definition webhook_evolution1 :: "string \<Rightarrow> bool \<Rightarrow> string \<Rightarrow> int \<Rightarrow> sys1 \<Rightarrow> sys1" where
  "webhook_evolution1 remoteJid fromMe messageContent now s =
     (let clientNumber = replace_first ''@s.whatsapp.net'' remoteJid;
          s1 = addLog1 now ''evolution_webhook'' s
      in if \<not> fromMe \<and> \<not> trim_empty messageContent then
           (case processClientResponse clientNumber messageContent now s1 of
              (Inl e, s2) \<Rightarrow> s2
            | (Inr result, s2) \<Rightarrow>
                (case map_of (conversationState1 s2) clientNumber of
                   None \<Rightarrow> addLog1 now ''error'' s2
                 | Some state \<Rightarrow>
                     addLog1 now ''success''
                       (sendToN8N
                          \<lparr>e1_client_phone = clientNumber,
                           e1_checkpoint_id = rr1_checkpoint_passed result,
                           e1_response_message = rr1_response result,
                           e1_total_checkpoints_passed = rr1_total_passed result,
                           e1_instance = c1_instance state,
                           e1_instance_apikey = getInstanceApiKey (c1_instance state)\<rparr>
                          now s2)))
         else s1)"

text \<open>One round of the loop of \<^verbatim>\<open>cleanupExpiredCheckpoints\<close>: the expiry of a waiting
  checkpoint past its deadline (the entry is changed in place), then the deletion of a
  conversation created before the retention horizon.\<close>

definition cleanupEntry1 :: "int \<Rightarrow> string \<times> conv1 \<Rightarrow> sys1 \<times> nat \<Rightarrow> sys1 \<times> nat" where
  "cleanupEntry1 now e sc =
     (case (e, sc) of ((phone, state), (s, expiredCount)) \<Rightarrow>
        let (s1, expiredCount1) =
              (if now > c1_expires_at state \<and> c1_waiting_for_response state then
                 let state' = state\<lparr>c1_status := Expired, c1_waiting_for_response := False,
                                    c1_current_checkpoint := None\<rparr>;
                     t1 = s\<lparr>conversationState1 :=
                              AList.update phone state' (conversationState1 s)\<rparr>;
                     t2 = updateInstanceStats1 (c1_instance state) ''no_response'' now t1;
                     t3 = updateInstanceStats1 (c1_instance state) ''conversation_complete'' now t2
                 in (addLog1 now ''timeout'' t3, expiredCount + 1)
               else (s, expiredCount));
            s2 = (if now - c1_created_at state > DATA_RETENTION_TIME1 then
                    s1\<lparr>conversationState1 := AList.delete phone (conversationState1 s1),
                       clientInstanceMap := AList.delete phone (clientInstanceMap s1)\<rparr>
                  else s1)
        in (s2, expiredCount1))"

definition cleanupExpiredCheckpoints :: "int \<Rightarrow> sys1 \<Rightarrow> sys1" where
  "cleanupExpiredCheckpoints now s =
     (let (s1, expiredCount) = fold (cleanupEntry1 now) (conversationState1 s) (s, 0);
          cutoffTime = now - DATA_RETENTION_TIME1;
          s2 = s1\<lparr>checkpointHistory1 :=
                    filter (\<lambda>h. h1_timestamp h > cutoffTime) (checkpointHistory1 s1)\<rparr>;
          s3 = s2\<lparr>systemLogs1 := filter (\<lambda>l. log_timestamp l > cutoffTime) (systemLogs1 s2)\<rparr>
      in if expiredCount > 0 then addLog1 now ''cleanup'' s3 else s3)"

datatype event1 =
    Start_conversation string "string option" int
  | Activate_checkpoint string string "string option" "string option" int
  | Webhook1 string bool string int
  | Cleanup1 int
  | Notifier_answered1 bool int

fun step1 :: "event1 \<Rightarrow> sys1 \<Rightarrow> sys1" where
  "step1 (Start_conversation phone name now) s = api_start_conversation phone name now s"
| "step1 (Activate_checkpoint phone ck m d now) s = api_activate_checkpoint phone ck m d now s"
| "step1 (Webhook1 jid fromMe txt now) s = webhook_evolution1 jid fromMe txt now s"
| "step1 (Cleanup1 now) s = cleanupExpiredCheckpoints now s"
| "step1 (Notifier_answered1 success now) s = sendToN8N_completed success now s"

definition run1 :: "event1 list \<Rightarrow> sys1 \<Rightarrow> sys1" where
  "run1 evs s = fold step1 evs s"

text \<open>The state once the module is loaded and the server listens (seven log lines).\<close>

definition init1 :: "int \<Rightarrow> sys1" where
  "init1 now =
     (addLog1 now ''info'' ^^ 7)
       (initializeInstanceStats1 now
          \<lparr>conversationState1 = [], clientInstanceMap = [], systemLogs1 = [],
           checkpointHistory1 = [], instanceStats1 = [], instanceCounter = 0,
           notified1 = [], postsInFlight1 = 0\<rparr>)"

section \<open>Notions of the specification\<close>

subsection \<open>The pending checkpoint of a client\<close>

text \<open>
  The specification's invariant speaks of the history of a conversation: a checkpoint
  was activated, and no resolving response or timeout has occurred since.  The two
  functions below follow these words over the events of a run.  A client with no
  conversation has no pending checkpoint; an accepted activation makes its checkpoint
  the pending one; an inbound message of the client (not an echo, not blank) resolves
  it; a timeout of the pending checkpoint resolves it; no other event changes it.

  In the variant with timers the timeout of a checkpoint is the firing of a due timer
  armed for the client and this checkpoint.
\<close>

definition pendingAfter2 :: "string \<Rightarrow> event2 \<Rightarrow> sys2 \<Rightarrow> string option \<Rightarrow> string option" where
  "pendingAfter2 c e s b =
     (if map_of (conversationState s) c = None then None
      else case e of
        Checkpoint_activate phone ck tm now \<Rightarrow>
          if phone = c \<and> phone \<noteq> [] \<and> ck \<noteq> [] then Some ck else b
      | Webhook2 jid fromMe txt now \<Rightarrow>
          if replace_first ''@s.whatsapp.net'' jid = c \<and> \<not> fromMe \<and> \<not> trim_empty txt
          then None else b
      | Timer_fired tid now \<Rightarrow>
          (case map_of (armedTimers s) tid of
             None \<Rightarrow> b
           | Some t \<Rightarrow>
               if t_due t \<le> now \<and> t_phone t = c \<and> b = Some (t_checkpoint t) then None else b)
      | _ \<Rightarrow> b)"

fun pendingCheckpoint2 :: "string \<Rightarrow> event2 list \<Rightarrow> sys2 \<Rightarrow> string option \<Rightarrow> string option" where
  "pendingCheckpoint2 c [] s b = b"
| "pendingCheckpoint2 c (e # es) s b =
     pendingCheckpoint2 c es (step2 e s) (pendingAfter2 c e s b)"

text \<open>In the variant without timers the timeout of a checkpoint is a pass of the
  cleanup job after the deadline, which is the time of the activation plus
  \<^const>\<open>CHECKPOINT_TIMEOUT\<close>; the pending checkpoint is kept with its deadline.\<close>

definition pendingAfter1 ::
  "string \<Rightarrow> event1 \<Rightarrow> sys1 \<Rightarrow> (string \<times> int) option \<Rightarrow> (string \<times> int) option" where
  "pendingAfter1 c e s b =
     (if map_of (conversationState1 s) c = None then None
      else case e of
        Activate_checkpoint phone ck m d now \<Rightarrow>
          if phone = c \<and> phone \<noteq> [] \<and> ck \<noteq> [] then Some (ck, now + CHECKPOINT_TIMEOUT)
          else b
      | Webhook1 jid fromMe txt now \<Rightarrow>
          if replace_first ''@s.whatsapp.net'' jid = c \<and> \<not> fromMe \<and> \<not> trim_empty txt
          then None else b
      | Cleanup1 now \<Rightarrow>
          (case b of
             None \<Rightarrow> None
           | Some (ck, deadline) \<Rightarrow> if now > deadline then None else b)
      | _ \<Rightarrow> b)"

fun pendingCheckpoint1 ::
  "string \<Rightarrow> event1 list \<Rightarrow> sys1 \<Rightarrow> (string \<times> int) option \<Rightarrow> (string \<times> int) option" where
  "pendingCheckpoint1 c [] s b = b"
| "pendingCheckpoint1 c (e # es) s b =
     pendingCheckpoint1 c es (step1 e s) (pendingAfter1 c e s b)"

subsection \<open>Consecutive selections\<close>

text \<open>The instances that \<open>k\<close> consecutive calls of the selection return.\<close>

fun selections1 :: "nat \<Rightarrow> int \<Rightarrow> sys1 \<Rightarrow> string list" where
  "selections1 0 now s = []"
| "selections1 (Suc k) now s =
     (case getBestInstance now s of (n, s') \<Rightarrow> n # selections1 k now s')"


text \<open>The entries of \<^verbatim>\<open>instanceStats\<close> that the scoring loop does not skip.\<close>

definition eligible1 :: "sys1 \<Rightarrow> (string \<times> stats1) list" where
  "eligible1 s = filter (\<lambda>e. \<not> i1_blocked (snd e)) (instanceStats1 s)"

subsection \<open>The instance with the highest score\<close>



subsection \<open>The score in the words of the specification\<close>


subsection \<open>Invariants used in the proofs\<close>

text \<open>The score that \<^const>\<open>finalScore\<close> computes, as a function of the four factors.\<close>

definition scoreOf :: "rat \<Rightarrow> rat \<Rightarrow> rat \<Rightarrow> rat \<Rightarrow> rat" where
  "scoreOf l r h t =
     dadd (dadd (dadd (dmul l (binary64 (4 / 10))) (dmul r (binary64 (3 / 10))))
                (dmul h (binary64 (2 / 10))))
          (dmul t (binary64 (1 / 10)))"

text \<open>What a pass of the cleanup job of index.js makes of a conversation: it is deleted
  when it was created before the retention horizon, and otherwise kept, expired when it
  was waiting past its deadline.\<close>

definition after1 :: "int \<Rightarrow> conv1 \<Rightarrow> conv1 option" where
  "after1 now st =
     (if now - c1_created_at st > DATA_RETENTION_TIME1 then None
      else Some (if now > c1_expires_at st \<and> c1_waiting_for_response st
                 then st\<lparr>c1_status := Expired, c1_waiting_for_response := False,
                         c1_current_checkpoint := None\<rparr>
                 else st))"

text \<open>The conversation of a client agrees with its pending checkpoint.\<close>

definition Inv2 :: "string \<Rightarrow> sys2 \<Rightarrow> string option \<Rightarrow> bool" where
  "Inv2 c s b =
     (case map_of (conversationState s) c of
        None \<Rightarrow> True
      | Some cv \<Rightarrow>
          (case b of
             None \<Rightarrow> \<not> c2_waiting_response cv
           | Some k \<Rightarrow> c2_waiting_response cv \<and> c2_current_checkpoint cv = Some k))"

definition Inv1 :: "string \<Rightarrow> sys1 \<Rightarrow> (string \<times> int) option \<Rightarrow> bool" where
  "Inv1 c s b =
     (case map_of (conversationState1 s) c of
        None \<Rightarrow> True
      | Some st \<Rightarrow>
          (case b of
             None \<Rightarrow> \<not> c1_waiting_for_response st \<and> c1_current_checkpoint st = None
           | Some (k, d) \<Rightarrow> c1_waiting_for_response st \<and> c1_current_checkpoint st = Some k \<and>
                k \<noteq> [] \<and> c1_expires_at st = d))"

text \<open>A key of the map of pending timeouts is gone, and so is the timer it was bound to.\<close>

definition swept :: "string \<Rightarrow> nat \<Rightarrow> sys2 \<Rightarrow> bool" where
  "swept k tid s = (map_of (checkpointTimeouts s) k = None \<and> map_of (armedTimers s) tid = None)"

text \<open>The statistics of index.js: one entry for each configured instance, none blocked,
  the response rate a multiple of one half between 0 and 100, the health score between
  0 and 100.\<close>

definition statOk1 :: "stats1 \<Rightarrow> bool" where
  "statOk1 st =
     (\<not> i1_blocked st \<and> 0 \<le> i1_response_rate st \<and> i1_response_rate st \<le> 100 \<and>
      2 * i1_response_rate st \<in> \<int> \<and> 0 \<le> i1_health_score st \<and> i1_health_score st \<le> 100)"

definition statsOk1 :: "sys1 \<Rightarrow> bool" where
  "statsOk1 s =
     (map fst (instanceStats1 s) = map fst INSTANCES1 \<and>
      list_all (\<lambda>e. statOk1 (snd e)) (instanceStats1 s))"

section \<open>The conversation store under each operation (part 001)\<close>

lemma conversationState_addLog [simp]: "conversationState (addLog now ty s) = conversationState s"
  by (simp add: addLog_def Let_def)
lemma conversationState_notifyN8N [simp]: "conversationState (notifyN8N ev s) = conversationState s"
  by (simp add: notifyN8N_def)
lemma conversationState_notifyN8N_completed [simp]:
  "conversationState (notifyN8N_completed ok now s) = conversationState s"
  by (simp add: notifyN8N_completed_def)
lemma conversationState_updateInstanceStats2 [simp]:
  "conversationState (updateInstanceStats2 n ev now s) = conversationState s"
  by (simp add: updateInstanceStats2_def Let_def split: option.splits)
lemma conversationState_cancelTimeoutKey [simp]:
  "conversationState (cancelTimeoutKey k s) = conversationState s"
  by (simp add: cancelTimeoutKey_def clearTimeout_def split: option.splits)
lemma conversationState_getNextInstance [simp]:
  "conversationState (snd (getNextInstance now s)) = conversationState s"
  by (simp add: getNextInstance_def Let_def split: option.splits list.splits)

lemma conversationState_setTimeout [simp]:
  "conversationState (snd (setTimeout delay now p k s)) = conversationState s"
  by (simp add: setTimeout_def)

lemma getNextInstance_convs:
  "getNextInstance now s = (r, s') \<Longrightarrow> conversationState s' = conversationState s"
  using conversationState_getNextInstance[of now s] by simp


lemma createConversation_map:
  "createConversation p n src now s = (r, s') \<Longrightarrow>
   map_of (conversationState s') c =
     (case r of
        Inl e \<Rightarrow> map_of (conversationState s) c
      | Inr cv \<Rightarrow> if c = p then Some cv else map_of (conversationState s) c)"
  by (auto simp: createConversation_def Let_def update_conv' dest: getNextInstance_convs
      split: prod.splits option.splits)

lemma createConversation_fresh:
  "createConversation p n src now s = (Inr cv, s') \<Longrightarrow>
     \<not> c2_waiting_response cv \<and> c2_current_checkpoint cv = None"
  by (auto simp: createConversation_def Let_def split: prod.splits option.splits)

lemma activateCheckpoint2_map:
  "map_of (conversationState (snd (activateCheckpoint2 p k tm now s))) c =
     (case map_of (conversationState s) p of
        None \<Rightarrow> map_of (conversationState s) c
      | Some cv \<Rightarrow>
          if c = p then
            Some (cv\<lparr>c2_current_checkpoint := Some k, c2_waiting_response := True,
                     c2_checkpoint_activated_at := Some now, c2_last_activity := now\<rparr>)
          else map_of (conversationState s) c)"
  by (simp add: activateCheckpoint2_def Let_def update_conv' setTimeout_def
      split: option.splits prod.splits)

lemma handleCheckpointTimeout_map:
  "map_of (conversationState (handleCheckpointTimeout p k now s)) c =
     (case map_of (conversationState s) p of
        None \<Rightarrow> map_of (conversationState s) c
      | Some cv \<Rightarrow>
          if c = p \<and> c2_current_checkpoint cv = Some k then
            Some (cv\<lparr>c2_waiting_response := False, c2_status := Timeout\<rparr>)
          else map_of (conversationState s) c)"
  by (auto simp: handleCheckpointTimeout_def Let_def update_conv' split: option.splits)

lemma processCheckpointResponse_map:
  "processCheckpointResponse p m now s = (r, s') \<Longrightarrow>
   map_of (conversationState s') c =
     (case map_of (conversationState s) p of
        None \<Rightarrow> map_of (conversationState s) c
      | Some cv \<Rightarrow>
          if c = p \<and> c2_waiting_response cv then
            Some (cv\<lparr>c2_checkpoints := c2_checkpoints cv @
                       [\<lparr>cd_name = c2_current_checkpoint cv, cd_response = m, cd_passed_at = now,
                         cd_response_time = map_option (\<lambda>t. now - t) (c2_checkpoint_activated_at cv)\<rparr>],
                     c2_waiting_response := False, c2_last_activity := now\<rparr>)
          else map_of (conversationState s) c)"
  by (auto simp: processCheckpointResponse_def Let_def update_conv' split: option.splits if_splits)

lemma cleanupEntry2_convs:
  "map_of (conversationState (fst (cleanupEntry2 now e sc))) c = Some cv \<Longrightarrow>
     map_of (conversationState (fst sc)) c = Some cv"
  by (cases e; cases sc) (auto simp: cleanupEntry2_def Let_def delete_conv' split: if_splits)

lemma cleanupLoop2_convs:
  "map_of (conversationState (fst (fold (cleanupEntry2 now) es sc))) c = Some cv \<Longrightarrow>
     map_of (conversationState (fst sc)) c = Some cv"
proof (induction es arbitrary: sc)
  case Nil
  then show ?case by simp
next
  case (Cons e es)
  from Cons.prems
  have "map_of (conversationState (fst (fold (cleanupEntry2 now) es (cleanupEntry2 now e sc)))) c = Some cv"
    by simp
  then have "map_of (conversationState (fst (cleanupEntry2 now e sc))) c = Some cv"
    by (rule Cons.IH)
  then show ?case by (rule cleanupEntry2_convs)
qed

lemma cleanupOldData_convs:
  "map_of (conversationState (cleanupOldData now s)) c = Some cv \<Longrightarrow>
     map_of (conversationState s) c = Some cv"
  using cleanupLoop2_convs[of now "conversationState s" "(s, 0)" c cv]
  by (auto simp: cleanupOldData_def Let_def split: prod.splits if_splits)

lemma createConversation_fresh':
  "fst (createConversation p n src now s) = Inr cv \<Longrightarrow>
     \<not> c2_waiting_response cv \<and> c2_current_checkpoint cv = None"
  by (cases "createConversation p n src now s") (auto dest: createConversation_fresh)

lemma api_lead_new_map:
  "map_of (conversationState (api_lead_new p n m src now s)) c =
     (if c = p \<and> p \<noteq> [] \<and> map_of (conversationState s) p = None then
        (case fst (createConversation p n src now s) of Inl e \<Rightarrow> None | Inr cv \<Rightarrow> Some cv)
      else map_of (conversationState s) c)"
proof (cases "createConversation p n src now s")
  case (Pair r s')
  from createConversation_map[OF Pair, of c] Pair show ?thesis
    by (cases r) (auto simp: api_lead_new_def)
qed

lemma webhook_evolution2_map:
  "map_of (conversationState (webhook_evolution2 jid fm tx now s)) c =
     (let phone = replace_first ''@s.whatsapp.net'' jid in
      if fm \<or> trim_empty tx then map_of (conversationState s) c
      else case map_of (conversationState s) phone of
        None \<Rightarrow>
          if c = phone then
            (case fst (createConversation phone ''Cliente'' ''whatsapp_direto'' now
                        (addLog now ''evolution'' s)) of
               Inl e \<Rightarrow> None | Inr cv \<Rightarrow> Some cv)
          else map_of (conversationState s) c
      | Some cv \<Rightarrow>
          if c = phone \<and> c2_waiting_response cv then
            Some (cv\<lparr>c2_checkpoints := c2_checkpoints cv @
                       [\<lparr>cd_name = c2_current_checkpoint cv, cd_response = tx, cd_passed_at = now,
                         cd_response_time = map_option (\<lambda>t. now - t) (c2_checkpoint_activated_at cv)\<rparr>],
                     c2_waiting_response := False, c2_last_activity := now\<rparr>)
          else map_of (conversationState s) c)"
proof -
  define phone where "phone = replace_first ''@s.whatsapp.net'' jid"
  define s1 where "s1 = addLog now ''evolution'' s"
  have s1: "conversationState s1 = conversationState s" by (simp add: s1_def)
  show ?thesis
  proof (cases "fm \<or> trim_empty tx")
    case True
    then show ?thesis by (auto simp: webhook_evolution2_def Let_def)
  next
    case False
    show ?thesis
    proof (cases "map_of (conversationState s) phone")
      case None
      obtain r s' where cc: "createConversation phone ''Cliente'' ''whatsapp_direto'' now s1 = (r, s')"
        by (cases "createConversation phone ''Cliente'' ''whatsapp_direto'' now s1")
      from createConversation_map[OF cc, of c] cc None False s1 show ?thesis
        by (cases r) (simp_all add: webhook_evolution2_def Let_def phone_def[symmetric] s1_def[symmetric])
    next
      case (Some cv)
      obtain r s' where pp: "processCheckpointResponse phone tx now s1 = (r, s')"
        by (cases "processCheckpointResponse phone tx now s1")
      from processCheckpointResponse_map[OF pp, of c] pp Some False s1 show ?thesis
        by (cases r) (simp_all add: webhook_evolution2_def Let_def phone_def[symmetric] s1_def[symmetric])
    qed
  qed
qed

lemma fireTimer_map:
  "map_of (conversationState (fireTimer tid now s)) c =
     (case map_of (armedTimers s) tid of
        None \<Rightarrow> map_of (conversationState s) c
      | Some t \<Rightarrow>
          if now < t_due t then map_of (conversationState s) c
          else (case map_of (conversationState s) (t_phone t) of
                  None \<Rightarrow> map_of (conversationState s) c
                | Some cv \<Rightarrow>
                    if c = t_phone t \<and> c2_current_checkpoint cv = Some (t_checkpoint t) then
                      Some (cv\<lparr>c2_waiting_response := False, c2_status := Timeout\<rparr>)
                    else map_of (conversationState s) c))"
  by (simp add: fireTimer_def handleCheckpointTimeout_map split: option.splits)

lemma api_checkpoint_activate_map:
  "map_of (conversationState (api_checkpoint_activate p k tm now s)) c =
     (if p = [] \<or> k = [] then map_of (conversationState s) c
      else case map_of (conversationState s) p of
        None \<Rightarrow> map_of (conversationState s) c
      | Some cv \<Rightarrow>
          if c = p then
            Some (cv\<lparr>c2_current_checkpoint := Some k, c2_waiting_response := True,
                     c2_checkpoint_activated_at := Some now, c2_last_activity := now\<rparr>)
          else map_of (conversationState s) c)"
  by (simp add: api_checkpoint_activate_def activateCheckpoint2_map)

lemma conversationState_api_instance_block [simp]:
  "conversationState (api_instance_block n now s) = conversationState s"
  by (simp add: api_instance_block_def split: option.splits)

lemma Inv2_Lead_new:
  "Inv2 c s b \<Longrightarrow> Inv2 c (step2 (Lead_new p n m src now) s) (pendingAfter2 c (Lead_new p n m src now) s b)"
  by (auto simp: Inv2_def pendingAfter2_def api_lead_new_map
      dest: createConversation_fresh' split: option.splits sum.splits if_splits)

lemma Inv2_Checkpoint_activate:
  "Inv2 c s b \<Longrightarrow> Inv2 c (step2 (Checkpoint_activate p k tm now) s) (pendingAfter2 c (Checkpoint_activate p k tm now) s b)"
  by (auto simp: Inv2_def pendingAfter2_def api_checkpoint_activate_map
      split: option.splits if_splits)

lemma Inv2_Webhook2:
  "Inv2 c s b \<Longrightarrow> Inv2 c (step2 (Webhook2 jid fm tx now) s) (pendingAfter2 c (Webhook2 jid fm tx now) s b)"
  by (auto simp: Inv2_def pendingAfter2_def webhook_evolution2_map Let_def
      dest: createConversation_fresh' split: option.splits sum.splits if_splits)

lemma Inv2_Instance_block:
  "Inv2 c s b \<Longrightarrow> Inv2 c (step2 (Instance_block n now) s) (pendingAfter2 c (Instance_block n now) s b)"
  by (auto simp: Inv2_def pendingAfter2_def split: option.splits)

lemma Inv2_Timer_fired:
  "Inv2 c s b \<Longrightarrow> Inv2 c (step2 (Timer_fired tid now) s) (pendingAfter2 c (Timer_fired tid now) s b)"
  by (auto simp: Inv2_def pendingAfter2_def fireTimer_map
      split: option.splits if_splits)

lemma Inv2_Cleanup2:
  "Inv2 c s b \<Longrightarrow> Inv2 c (step2 (Cleanup2 now) s) (pendingAfter2 c (Cleanup2 now) s b)"
  by (auto simp: Inv2_def pendingAfter2_def dest: cleanupOldData_convs split: option.splits)

lemma Inv2_Notifier_answered:
  "Inv2 c s b \<Longrightarrow>
   Inv2 c (step2 (Notifier_answered ok now) s) (pendingAfter2 c (Notifier_answered ok now) s b)"
  by (auto simp: Inv2_def pendingAfter2_def split: option.splits)

lemma Inv2_step: "Inv2 c s b \<Longrightarrow> Inv2 c (step2 e s) (pendingAfter2 c e s b)"
  by (cases e) (simp_all only: Inv2_Lead_new Inv2_Checkpoint_activate Inv2_Webhook2
      Inv2_Instance_block Inv2_Timer_fired Inv2_Cleanup2 Inv2_Notifier_answered)

lemma Inv2_run: "Inv2 c s b \<Longrightarrow> Inv2 c (run2 evs s) (pendingCheckpoint2 c evs s b)"
  unfolding run2_def by (induction evs arbitrary: s b) (simp_all add: Inv2_step)

lemma Inv2_init: "Inv2 c (init2 t0) None"
  by (simp add: Inv2_def init2_def initializeInstanceStats_def)

section \<open>The conversation store under each operation (index.js)\<close>

lemma conversationState1_addLog1 [simp]:
  "conversationState1 (addLog1 now ty s) = conversationState1 s"
  by (simp add: addLog1_def)
lemma conversationState1_updateInstanceStats1 [simp]:
  "conversationState1 (updateInstanceStats1 n a now s) = conversationState1 s"
  by (simp add: updateInstanceStats1_def split: option.splits)
lemma conversationState1_sendToN8N [simp]:
  "conversationState1 (sendToN8N ev now s) = conversationState1 s"
  by (simp add: sendToN8N_def Let_def)

lemma conversationState1_sendToN8N_completed [simp]:
  "conversationState1 (sendToN8N_completed ok now s) = conversationState1 s"
  by (simp add: sendToN8N_completed_def)
lemma conversationState1_getBestInstance [simp]:
  "conversationState1 (snd (getBestInstance now s)) = conversationState1 s"
  by (simp add: getBestInstance_def Let_def split: option.splits)

lemma api_start_conversation_convs:
  "conversationState1 (api_start_conversation p nm now s) =
     (if p \<noteq> [] \<and> map_of (conversationState1 s) p = None then
        AList.update p (createConversationState p
              (case nm of None \<Rightarrow> ''Cliente'' | Some n \<Rightarrow> if n = [] then ''Cliente'' else n)
              (fst (getBestInstance now s)) now) (conversationState1 s)
      else conversationState1 s)"
  by (cases "getBestInstance now s")
     (use conversationState1_getBestInstance[of now s] in
       \<open>auto simp: api_start_conversation_def Let_def\<close>)

lemma activateCheckpoint1_convs:
  "conversationState1 (snd (activateCheckpoint1 p k m d now s)) =
     (case map_of (conversationState1 s) p of
        None \<Rightarrow> conversationState1 s
      | Some st \<Rightarrow>
          AList.update p
            ((if falsy d then (\<lambda>x. x) else c1_step_data_update (\<lambda>_. d))
             ((if falsy m then (\<lambda>x. x) else c1_last_system_message_update (\<lambda>_. m))
               (st\<lparr>c1_current_checkpoint := Some k, c1_waiting_for_response := True,
                    c1_last_activity := now, c1_expires_at := now + CHECKPOINT_TIMEOUT\<rparr>)))
            (conversationState1 s))"
  by (simp add: activateCheckpoint1_def Let_def split: option.splits)

lemma processClientResponse_convs:
  "processClientResponse p m now s = (r, s') \<Longrightarrow>
   conversationState1 s' =
     (case map_of (conversationState1 s) p of
        None \<Rightarrow> conversationState1 s
      | Some st \<Rightarrow>
          if \<not> c1_waiting_for_response st \<or> falsy (c1_current_checkpoint st)
          then conversationState1 s
          else AList.update p
            (st\<lparr>c1_responses := c1_responses st @
                    [\<lparr>r1_checkpoint_id = c1_current_checkpoint st, r1_message = m,
                      r1_timestamp = now, r1_response_time = now - c1_last_activity st\<rparr>],
                 c1_checkpoint_history := c1_checkpoint_history st @
                    [\<lparr>p1_checkpoint_id = c1_current_checkpoint st, p1_passed_at = now,
                      p1_response_message = m\<rparr>],
                 c1_total_checkpoints_passed := c1_total_checkpoints_passed st + 1,
                 c1_waiting_for_response := False, c1_last_activity := now,
                 c1_current_checkpoint := None\<rparr>)
            (conversationState1 s))"
  by (auto simp: processClientResponse_def Let_def split: option.splits if_splits)

lemma webhook_evolution1_convs:
  "conversationState1 (webhook_evolution1 jid fm tx now s) =
     (if fm \<or> trim_empty tx then conversationState1 s
      else conversationState1 (snd (processClientResponse
             (replace_first ''@s.whatsapp.net'' jid) tx now
             (addLog1 now ''evolution_webhook'' s))))"
  by (cases "processClientResponse (replace_first ''@s.whatsapp.net'' jid) tx now
        (addLog1 now ''evolution_webhook'' s)")
     (auto simp: webhook_evolution1_def Let_def split: sum.splits option.splits)

lemma cleanupEntry1_convs:
  "conversationState1 (fst (cleanupEntry1 now (p, st) (s, n))) =
     (let l1 = (if now > c1_expires_at st \<and> c1_waiting_for_response st
                then AList.update p (st\<lparr>c1_status := Expired, c1_waiting_for_response := False,
                         c1_current_checkpoint := None\<rparr>) (conversationState1 s)
                else conversationState1 s)
      in if now - c1_created_at st > DATA_RETENTION_TIME1 then AList.delete p l1 else l1)"
  by (simp add: cleanupEntry1_def Let_def)

lemma cleanupEntry1_map:
  "map_of (conversationState1 s) p = Some st \<Longrightarrow>
   map_of (conversationState1 (fst (cleanupEntry1 now (p, st) (s, n)))) c =
     (if c = p then after1 now st else map_of (conversationState1 s) c)"
  by (simp add: cleanupEntry1_convs Let_def after1_def update_conv' delete_conv')

lemma cleanupEntry1_distinct:
  "distinct (map fst (conversationState1 (fst sc))) \<Longrightarrow>
   distinct (map fst (conversationState1 (fst (cleanupEntry1 now e sc))))"
  by (cases e; cases sc) (simp add: cleanupEntry1_convs Let_def distinct_update distinct_delete)

lemma cleanupLoop1_distinct:
  "distinct (map fst (conversationState1 (fst sc))) \<Longrightarrow>
   distinct (map fst (conversationState1 (fst (fold (cleanupEntry1 now) es sc))))"
  by (induction es arbitrary: sc) (simp_all add: cleanupEntry1_distinct)

lemma cleanupLoop1_map:
  "distinct (map fst es) \<Longrightarrow>
   (\<forall>e \<in> set es. map_of (conversationState1 s) (fst e) = Some (snd e)) \<Longrightarrow>
   map_of (conversationState1 (fst (fold (cleanupEntry1 now) es (s, n)))) c =
     (case map_of es c of
        None \<Rightarrow> map_of (conversationState1 s) c
      | Some st \<Rightarrow> after1 now st)"
proof (induction es arbitrary: s n)
  case Nil
  then show ?case by simp
next
  case (Cons e es)
  obtain p st where e: "e = (p, st)" by (cases e)
  obtain s' n' where s': "cleanupEntry1 now (p, st) (s, n) = (s', n')"
    by (cases "cleanupEntry1 now (p, st) (s, n)")
  from Cons.prems e have live: "map_of (conversationState1 s) p = Some st" by simp
  have step: "map_of (conversationState1 s') q =
      (if q = p then after1 now st else map_of (conversationState1 s) q)" for q
    using cleanupEntry1_map[OF live, of now n q] s' by simp
  from Cons.prems e have notin: "p \<notin> fst ` set es" and dist: "distinct (map fst es)" by auto
  have rest: "\<forall>e' \<in> set es. map_of (conversationState1 s') (fst e') = Some (snd e')"
  proof
    fix e' assume e': "e' \<in> set es"
    with notin have ne: "fst e' \<noteq> p" by auto
    from Cons.prems(2) e' have "map_of (conversationState1 s) (fst e') = Some (snd e')"
      by simp
    with ne step[of "fst e'"] show "map_of (conversationState1 s') (fst e') = Some (snd e')"
      by simp
  qed
  have ih: "map_of (conversationState1 (fst (fold (cleanupEntry1 now) es (s', n')))) c =
     (case map_of es c of None \<Rightarrow> map_of (conversationState1 s') c
      | Some st \<Rightarrow> after1 now st)"
    by (rule Cons.IH[OF dist rest])
  from notin have none: "map_of es p = None" by (simp add: map_of_eq_None_iff)
  have fold_eq: "fold (cleanupEntry1 now) (e # es) (s, n) = fold (cleanupEntry1 now) es (s', n')"
    using e s' by simp
  show ?case
  proof (cases "c = p")
    case True
    with ih none step[of p] e show ?thesis unfolding fold_eq by simp
  next
    case False
    with ih step[of c] e show ?thesis unfolding fold_eq by (simp split: option.splits)
  qed
qed

lemma cleanupExpiredCheckpoints_convs:
  "conversationState1 (cleanupExpiredCheckpoints now s) =
     conversationState1 (fst (fold (cleanupEntry1 now) (conversationState1 s) (s, 0)))"
  by (simp add: cleanupExpiredCheckpoints_def Let_def split: prod.splits)

lemma cleanupExpiredCheckpoints_map:
  assumes "distinct (map fst (conversationState1 s))"
  shows "map_of (conversationState1 (cleanupExpiredCheckpoints now s)) c =
     (case map_of (conversationState1 s) c of None \<Rightarrow> None | Some st \<Rightarrow> after1 now st)"
proof -
  have "\<forall>e \<in> set (conversationState1 s). map_of (conversationState1 s) (fst e) = Some (snd e)"
    using assms by simp
  from cleanupLoop1_map[OF assms this, of now 0 c] show ?thesis
    by (simp add: cleanupExpiredCheckpoints_convs split: option.splits)
qed

lemma cleanupExpiredCheckpoints_distinct:
  "distinct (map fst (conversationState1 s)) \<Longrightarrow>
   distinct (map fst (conversationState1 (cleanupExpiredCheckpoints now s)))"
  using cleanupLoop1_distinct[of "(s, 0)" now "conversationState1 s"]
  by (simp add: cleanupExpiredCheckpoints_convs)

lemma step1_distinct:
  "distinct (map fst (conversationState1 s)) \<Longrightarrow>
   distinct (map fst (conversationState1 (step1 e s)))"
proof (cases e)
  case (Start_conversation p nm now)
  assume "distinct (map fst (conversationState1 s))"
  then show ?thesis using Start_conversation
    by (simp add: api_start_conversation_convs distinct_update)
next
  case (Activate_checkpoint p k m d now)
  assume "distinct (map fst (conversationState1 s))"
  then show ?thesis using Activate_checkpoint
    by (simp add: api_activate_checkpoint_def activateCheckpoint1_convs distinct_update
        split: option.splits)
next
  case (Webhook1 jid fm tx now)
  assume d: "distinct (map fst (conversationState1 s))"
  obtain r s' where pp: "processClientResponse (replace_first ''@s.whatsapp.net'' jid) tx now
       (addLog1 now ''evolution_webhook'' s) = (r, s')"
    by (cases "processClientResponse (replace_first ''@s.whatsapp.net'' jid) tx now
       (addLog1 now ''evolution_webhook'' s)")
  from processClientResponse_convs[OF pp] d have "distinct (map fst (conversationState1 s'))"
    by (simp add: distinct_update split: option.splits if_splits)
  then show ?thesis using Webhook1 d pp
    by (simp add: webhook_evolution1_convs)
next
  case (Cleanup1 now)
  assume "distinct (map fst (conversationState1 s))"
  then show ?thesis using Cleanup1 by (simp add: cleanupExpiredCheckpoints_distinct)
next
  case (Notifier_answered1 ok now)
  assume "distinct (map fst (conversationState1 s))"
  then show ?thesis using Notifier_answered1 by simp
qed

lemma Inv1_Start:
  "Inv1 c s b \<Longrightarrow> Inv1 c (step1 (Start_conversation p nm now) s) (pendingAfter1 c (Start_conversation p nm now) s b)"
  by (auto simp: Inv1_def pendingAfter1_def api_start_conversation_convs update_conv'
      createConversationState_def split: option.splits if_splits)

lemma Inv1_Activate:
  "Inv1 c s b \<Longrightarrow> Inv1 c (step1 (Activate_checkpoint p k m d now) s) (pendingAfter1 c (Activate_checkpoint p k m d now) s b)"
  by (auto simp: Inv1_def pendingAfter1_def api_activate_checkpoint_def activateCheckpoint1_convs update_conv'
      split: option.splits if_splits)

lemma Inv1_Webhook:
  "Inv1 c s b \<Longrightarrow> Inv1 c (step1 (Webhook1 jid fm tx now) s) (pendingAfter1 c (Webhook1 jid fm tx now) s b)"
proof -
  assume inv: "Inv1 c s b"
  obtain r s' where pp: "processClientResponse (replace_first ''@s.whatsapp.net'' jid) tx now
       (addLog1 now ''evolution_webhook'' s) = (r, s')"
    by (cases "processClientResponse (replace_first ''@s.whatsapp.net'' jid) tx now
       (addLog1 now ''evolution_webhook'' s)")
  from processClientResponse_convs[OF pp] inv pp show ?thesis
    by (auto simp: Inv1_def pendingAfter1_def webhook_evolution1_convs update_conv' falsy_def
        split: option.splits if_splits)
qed

lemma Inv1_Cleanup:
  assumes d: "distinct (map fst (conversationState1 s))" and inv: "Inv1 c s b"
  shows "Inv1 c (step1 (Cleanup1 now) s) (pendingAfter1 c (Cleanup1 now) s b)"
proof (cases "map_of (conversationState1 s) c")
  case None
  then show ?thesis
    by (simp add: Inv1_def cleanupExpiredCheckpoints_map[OF d])
next
  case (Some st)
  show ?thesis
  proof (cases b)
    case None
    with Some inv show ?thesis
      by (simp add: Inv1_def pendingAfter1_def cleanupExpiredCheckpoints_map[OF d] after1_def)
  next
    case (Some kd)
    obtain k dl where kd: "kd = (k, dl)" by (cases kd)
    from Some kd \<open>map_of (conversationState1 s) c = Some st\<close> inv show ?thesis
      by (simp add: Inv1_def pendingAfter1_def cleanupExpiredCheckpoints_map[OF d] after1_def)
  qed
qed

lemma Inv1_Notifier_answered1:
  "Inv1 c s b \<Longrightarrow>
   Inv1 c (step1 (Notifier_answered1 ok now) s) (pendingAfter1 c (Notifier_answered1 ok now) s b)"
  by (auto simp: Inv1_def pendingAfter1_def split: option.splits)

lemma Inv1_step:
  "distinct (map fst (conversationState1 s)) \<Longrightarrow> Inv1 c s b \<Longrightarrow>
   Inv1 c (step1 e s) (pendingAfter1 c e s b)"
  by (cases e)
     (simp_all only: Inv1_Start Inv1_Activate Inv1_Webhook Inv1_Cleanup Inv1_Notifier_answered1)

lemma Inv1_run:
  "distinct (map fst (conversationState1 s)) \<Longrightarrow> Inv1 c s b \<Longrightarrow>
   Inv1 c (run1 evs s) (pendingCheckpoint1 c evs s b)"
  unfolding run1_def
  by (induction evs arbitrary: s b) (simp_all add: Inv1_step step1_distinct)

lemma conversationState1_init1 [simp]: "conversationState1 (init1 t0) = []"
  by (simp add: init1_def initializeInstanceStats1_def funpow_def numeral_eq_Suc)



lemma addLog_fields [simp]:
  "checkpointTimeouts (addLog now ty s) = checkpointTimeouts s"
  "armedTimers (addLog now ty s) = armedTimers s"
  "instanceStats (addLog now ty s) = instanceStats s"
  "checkpointHistory (addLog now ty s) = checkpointHistory s"
  "notified (addLog now ty s) = notified s"
  "dailyStats (addLog now ty s) = dailyStats s"
  "nextTimerId (addLog now ty s) = nextTimerId s"
  "INSTANCES (addLog now ty s) = INSTANCES s"
  "instanceRotationCounter (addLog now ty s) = instanceRotationCounter s"
  by (simp_all add: addLog_def Let_def)

lemma cancelTimeoutKey_fields [simp]:
  "instanceStats (cancelTimeoutKey k s) = instanceStats s"
  "checkpointHistory (cancelTimeoutKey k s) = checkpointHistory s"
  "notified (cancelTimeoutKey k s) = notified s"
  "dailyStats (cancelTimeoutKey k s) = dailyStats s"
  "nextTimerId (cancelTimeoutKey k s) = nextTimerId s"
  "systemLogs (cancelTimeoutKey k s) = systemLogs s"
  "INSTANCES (cancelTimeoutKey k s) = INSTANCES s"
  by (simp_all add: cancelTimeoutKey_def clearTimeout_def split: option.splits)

lemma cancelTimeoutKey_key [simp]:
  "map_of (checkpointTimeouts (cancelTimeoutKey k s)) k = None"
  by (simp add: cancelTimeoutKey_def clearTimeout_def delete_conv' split: option.splits)

lemma cancelTimeoutKey_timer:
  "map_of (checkpointTimeouts s) k = Some tid \<Longrightarrow>
   map_of (armedTimers (cancelTimeoutKey k s)) tid = None"
  by (simp add: cancelTimeoutKey_def clearTimeout_def delete_conv')

lemma updateInstanceStats2_fields [simp]:
  "checkpointTimeouts (updateInstanceStats2 n ev now s) = checkpointTimeouts s"
  "armedTimers (updateInstanceStats2 n ev now s) = armedTimers s"
  "checkpointHistory (updateInstanceStats2 n ev now s) = checkpointHistory s"
  "notified (updateInstanceStats2 n ev now s) = notified s"
  "dailyStats (updateInstanceStats2 n ev now s) = dailyStats s"
  "nextTimerId (updateInstanceStats2 n ev now s) = nextTimerId s"
  "INSTANCES (updateInstanceStats2 n ev now s) = INSTANCES s"
  by (simp_all add: updateInstanceStats2_def Let_def split: option.splits)

lemma updateInstanceStats2_stats:
  "instanceStats (updateInstanceStats2 n ev now s) =
     (case map_of (instanceStats s) n of
        None \<Rightarrow> instanceStats s
      | Some st \<Rightarrow>
          AList.update n ((statsEvent2 ev st)\<lparr>i2_last_activity := now\<rparr>) (instanceStats s))"
  by (simp add: updateInstanceStats2_def Let_def split: option.splits)


lemma notifyN8N_fields [simp]:
  "checkpointTimeouts (notifyN8N ev s) = checkpointTimeouts s"
  "armedTimers (notifyN8N ev s) = armedTimers s"
  "instanceStats (notifyN8N ev s) = instanceStats s"
  "checkpointHistory (notifyN8N ev s) = checkpointHistory s"
  "notified (notifyN8N ev s) = notified s @ [ev]"
  "dailyStats (notifyN8N ev s) = dailyStats s"
  "nextTimerId (notifyN8N ev s) = nextTimerId s"
  "INSTANCES (notifyN8N ev s) = INSTANCES s"
  by (simp_all add: notifyN8N_def)

lemma notifyN8N_completed_fields [simp]:
  "checkpointTimeouts (notifyN8N_completed ok now s) = checkpointTimeouts s"
  "armedTimers (notifyN8N_completed ok now s) = armedTimers s"
  "instanceStats (notifyN8N_completed ok now s) = instanceStats s"
  "checkpointHistory (notifyN8N_completed ok now s) = checkpointHistory s"
  "notified (notifyN8N_completed ok now s) = notified s"
  "dailyStats (notifyN8N_completed ok now s) = dailyStats s"
  "nextTimerId (notifyN8N_completed ok now s) = nextTimerId s"
  "INSTANCES (notifyN8N_completed ok now s) = INSTANCES s"
  by (simp_all add: notifyN8N_completed_def addLog_def Let_def)

lemma cleanupEntry2_fields:
  "conversationState (fst (cleanupEntry2 now (p, cv) (s, n))) =
     (if now - c2_last_activity cv > DATA_RETENTION_TIME2
      then AList.delete p (conversationState s) else conversationState s)"
  "checkpointTimeouts (fst (cleanupEntry2 now (p, cv) (s, n))) =
     (if now - c2_last_activity cv > DATA_RETENTION_TIME2
      then checkpointTimeouts (cancelTimeoutKey (timeoutKey p (c2_current_checkpoint cv)) s)
      else checkpointTimeouts s)"
  "armedTimers (fst (cleanupEntry2 now (p, cv) (s, n))) =
     (if now - c2_last_activity cv > DATA_RETENTION_TIME2
      then armedTimers (cancelTimeoutKey (timeoutKey p (c2_current_checkpoint cv)) s)
      else armedTimers s)"
  by (simp_all add: cleanupEntry2_def Let_def cancelTimeoutKey_def clearTimeout_def
      split: option.splits)

lemma cleanupLoop2_filter:
  "conversationState (fst (fold (cleanupEntry2 now) es (s, n))) =
     filter (\<lambda>e. \<not> (\<exists>cv. (fst e, cv) \<in> set es \<and> now - c2_last_activity cv > DATA_RETENTION_TIME2))
       (conversationState s)"
proof (induction es arbitrary: s n)
  case Nil
  then show ?case by simp
next
  case (Cons e es)
  obtain p cv where e: "e = (p, cv)" by (cases e)
  obtain s' n' where s': "cleanupEntry2 now (p, cv) (s, n) = (s', n')"
    by (cases "cleanupEntry2 now (p, cv) (s, n)")
  have c': "conversationState s' =
     (if now - c2_last_activity cv > DATA_RETENTION_TIME2
      then AList.delete p (conversationState s) else conversationState s)"
    using cleanupEntry2_fields(1)[of now p cv s n] s' by simp
  have "conversationState (fst (fold (cleanupEntry2 now) (e # es) (s, n))) =
      conversationState (fst (fold (cleanupEntry2 now) es (s', n')))"
    using e s' by simp
  also have "\<dots> = filter (\<lambda>e. \<not> (\<exists>cv. (fst e, cv) \<in> set es \<and>
        now - c2_last_activity cv > DATA_RETENTION_TIME2)) (conversationState s')"
    by (rule Cons.IH)
  also have "\<dots> = filter (\<lambda>x. \<not> (\<exists>cv. (fst x, cv) \<in> set (e # es) \<and>
        now - c2_last_activity cv > DATA_RETENTION_TIME2)) (conversationState s)"
    unfolding c' e by (auto simp: AList.delete_eq intro!: filter_cong)
  finally show ?case .
qed

lemma cleanupOldData_conversationState:
  "conversationState (cleanupOldData now s) =
     conversationState (fst (fold (cleanupEntry2 now) (conversationState s) (s, 0)))"
  by (simp add: cleanupOldData_def Let_def split: prod.splits)

lemma cleanupOldData_checkpointTimeouts:
  "checkpointTimeouts (cleanupOldData now s) =
     checkpointTimeouts (fst (fold (cleanupEntry2 now) (conversationState s) (s, 0)))"
  by (simp add: cleanupOldData_def Let_def split: prod.splits)

lemma cleanupOldData_armedTimers:
  "armedTimers (cleanupOldData now s) =
     armedTimers (fst (fold (cleanupEntry2 now) (conversationState s) (s, 0)))"
  by (simp add: cleanupOldData_def Let_def split: prod.splits)

lemma cleanupOldData_filter:
  assumes "distinct (map fst (conversationState s))"
  shows "conversationState (cleanupOldData now s) =
     filter (\<lambda>e. \<not> (now - c2_last_activity (snd e) > DATA_RETENTION_TIME2)) (conversationState s)"
proof -
  have "(\<exists>cv. (fst e, cv) \<in> set (conversationState s) \<and>
           now - c2_last_activity cv > DATA_RETENTION_TIME2) =
        (now - c2_last_activity (snd e) > DATA_RETENTION_TIME2)"
    if "e \<in> set (conversationState s)" for e
  proof
    assume "\<exists>cv. (fst e, cv) \<in> set (conversationState s) \<and>
           now - c2_last_activity cv > DATA_RETENTION_TIME2"
    then obtain cv where cv: "(fst e, cv) \<in> set (conversationState s)"
      and old: "now - c2_last_activity cv > DATA_RETENTION_TIME2" by blast
    from that have "(fst e, snd e) \<in> set (conversationState s)" by simp
    with cv assms have "cv = snd e" by (meson eq_key_imp_eq_value)
    with old show "now - c2_last_activity (snd e) > DATA_RETENTION_TIME2" by simp
  next
    assume "now - c2_last_activity (snd e) > DATA_RETENTION_TIME2"
    moreover from that have "(fst e, snd e) \<in> set (conversationState s)" by simp
    ultimately show "\<exists>cv. (fst e, cv) \<in> set (conversationState s) \<and>
           now - c2_last_activity cv > DATA_RETENTION_TIME2" by blast
  qed
  then show ?thesis
    unfolding cleanupOldData_conversationState cleanupLoop2_filter
    by (intro filter_cong) auto
qed

lemma cancelTimeoutKey_None:
  "map_of (checkpointTimeouts s) k = None \<Longrightarrow>
   map_of (checkpointTimeouts (cancelTimeoutKey k' s)) k = None"
  "map_of (armedTimers s) tid = None \<Longrightarrow>
   map_of (armedTimers (cancelTimeoutKey k' s)) tid = None"
  by (simp_all add: cancelTimeoutKey_def clearTimeout_def delete_conv' split: option.splits)

lemma cancelTimeoutKey_Some:
  "map_of (checkpointTimeouts s) k = Some tid \<Longrightarrow>
   map_of (checkpointTimeouts (cancelTimeoutKey k' s)) k = Some tid \<or>
   (map_of (checkpointTimeouts (cancelTimeoutKey k' s)) k = None \<and>
    map_of (armedTimers (cancelTimeoutKey k' s)) tid = None)"
  by (auto simp: cancelTimeoutKey_def clearTimeout_def delete_conv' split: option.splits)

lemma cleanupEntry2_swept:
  "swept k tid (fst sc) \<Longrightarrow> swept k tid (fst (cleanupEntry2 now e sc))"
  by (cases e; cases sc) (simp add: swept_def cleanupEntry2_fields cancelTimeoutKey_None)

lemma cleanupEntry2_pending:
  "map_of (checkpointTimeouts (fst sc)) k = Some tid \<or> swept k tid (fst sc) \<Longrightarrow>
   map_of (checkpointTimeouts (fst (cleanupEntry2 now e sc))) k = Some tid \<or>
   swept k tid (fst (cleanupEntry2 now e sc))"
  using cleanupEntry2_swept[of k tid sc now e]
  by (cases e; cases sc) (auto simp: cleanupEntry2_fields swept_def dest: cancelTimeoutKey_Some)

lemma cleanupEntry2_hit:
  assumes "map_of (checkpointTimeouts s) (timeoutKey p (c2_current_checkpoint cv)) = Some tid \<or>
           swept (timeoutKey p (c2_current_checkpoint cv)) tid s"
    and "now - c2_last_activity cv > DATA_RETENTION_TIME2"
  shows "swept (timeoutKey p (c2_current_checkpoint cv)) tid (fst (cleanupEntry2 now (p, cv) (s, n)))"
  using assms
  by (auto simp: cleanupEntry2_fields swept_def cancelTimeoutKey_None cancelTimeoutKey_timer)

lemma cleanupLoop2_swept:
  "swept k tid (fst sc) \<Longrightarrow> swept k tid (fst (fold (cleanupEntry2 now) es sc))"
  by (induction es arbitrary: sc) (simp_all add: cleanupEntry2_swept)

lemma cleanupLoop2_hit:
  assumes "map_of (checkpointTimeouts (fst sc)) k = Some tid \<or> swept k tid (fst sc)"
    and "(p, cv) \<in> set es" and "now - c2_last_activity cv > DATA_RETENTION_TIME2"
    and "k = timeoutKey p (c2_current_checkpoint cv)"
  shows "swept k tid (fst (fold (cleanupEntry2 now) es sc))"
  using assms
proof (induction es arbitrary: sc)
  case Nil
  then show ?case by simp
next
  case (Cons e es)
  show ?case
  proof (cases "e = (p, cv)")
    case True
    obtain s n where sc: "sc = (s, n)" by (cases sc)
    from Cons.prems(1,3,4) sc
    have "swept k tid (fst (cleanupEntry2 now (p, cv) (s, n)))"
      using cleanupEntry2_hit[of s p cv tid now n] by simp
    then show ?thesis using True sc by (simp add: cleanupLoop2_swept)
  next
    case False
    with Cons.prems(2) have "(p, cv) \<in> set es" by simp
    moreover from Cons.prems(1)
    have "map_of (checkpointTimeouts (fst (cleanupEntry2 now e sc))) k = Some tid \<or>
          swept k tid (fst (cleanupEntry2 now e sc))"
      by (rule cleanupEntry2_pending)
    ultimately show ?thesis using Cons.IH[OF _ _ Cons.prems(3,4)] by simp
  qed
qed

lemma cleanupLoop2_key_None:
  "map_of (checkpointTimeouts (fst sc)) k = None \<Longrightarrow>
   map_of (checkpointTimeouts (fst (fold (cleanupEntry2 now) es sc))) k = None"
proof (induction es arbitrary: sc)
  case Nil
  then show ?case by simp
next
  case (Cons e es)
  have "map_of (checkpointTimeouts (fst (cleanupEntry2 now e sc))) k = None"
    using Cons.prems by (cases e; cases sc) (simp add: cleanupEntry2_fields cancelTimeoutKey_None)
  then show ?case using Cons.IH by simp
qed

lemma cleanupOldData_timers:
  assumes "(p, cv) \<in> set (conversationState s)"
    and "now - c2_last_activity cv > DATA_RETENTION_TIME2"
  shows "map_of (checkpointTimeouts (cleanupOldData now s))
           (timeoutKey p (c2_current_checkpoint cv)) = None"
    and "map_of (checkpointTimeouts s) (timeoutKey p (c2_current_checkpoint cv)) = Some tid \<Longrightarrow>
         map_of (armedTimers (cleanupOldData now s)) tid = None"
proof -
  let ?k = "timeoutKey p (c2_current_checkpoint cv)"
  let ?s' = "fst (fold (cleanupEntry2 now) (conversationState s) (s, 0))"
  have hit: "swept ?k t ?s'" if "map_of (checkpointTimeouts s) ?k = Some t" for t
    using cleanupLoop2_hit[of "(s, 0)" ?k t p cv "conversationState s" now] that assms by simp
  show "map_of (checkpointTimeouts (cleanupOldData now s)) ?k = None"
  proof (cases "map_of (checkpointTimeouts s) ?k")
    case None
    then show ?thesis
      using cleanupLoop2_key_None[of "(s, 0)" ?k now "conversationState s"]
      by (simp add: cleanupOldData_checkpointTimeouts)
  next
    case (Some t)
    from hit[OF Some] show ?thesis
      by (simp add: swept_def cleanupOldData_checkpointTimeouts)
  qed
  show "map_of (armedTimers (cleanupOldData now s)) tid = None"
    if "map_of (checkpointTimeouts s) ?k = Some tid"
    using hit[OF that] by (simp add: swept_def cleanupOldData_armedTimers)
qed

lemma available_addLog [simp]: "available (addLog t ty s) = available s"
  by (rule ext) (simp add: available_def)

lemma getNextInstance_addLog:
  "fst (getNextInstance now (addLog t ty s)) = fst (getNextInstance now s)"
  by (simp add: getNextInstance_def Let_def)

lemma getNextInstance_Some:
  "INSTANCES s \<noteq> [] \<Longrightarrow> fst (getNextInstance now s) \<noteq> None"
  by (auto simp: getNextInstance_def Let_def split: list.splits)

lemma createConversation_result:
  "fst (createConversation p n src now s) =
     (case fst (getNextInstance now s) of
        None \<Rightarrow> Inl TypeError
      | Some i \<Rightarrow>
          Inr \<lparr>c2_phone = p, c2_name = n, c2_instance = inst_name i,
               c2_instance_id = inst_id i, c2_source = src,
               c2_current_checkpoint = None, c2_checkpoints = [],
               c2_waiting_response = False, c2_checkpoint_activated_at = None,
               c2_created_at = now, c2_last_activity = now, c2_status = Active\<rparr>)"
  by (cases "getNextInstance now s")
     (auto simp: createConversation_def Let_def split: option.splits)

section \<open>The selection of an instance\<close>

text \<open>The scores of the instances that the runs of this development meet, computed once;
  the evaluation of a run looks them up.\<close>

lemma scoreOf_94_100_99_10: "scoreOf 94 100 99 10 = 6220596985305497 / 70368744177664"
  by code_simp

lemma scoreOf_96_100_99_10: "scoreOf 96 100 99 10 = 6276891980647629 / 70368744177664"
  by code_simp

lemma scoreOf_96_100_100_0: "scoreOf 96 100 100 0 = 3110298492652749 / 35184372088832"
  by code_simp

lemma scoreOf_98_100_99_10: "scoreOf 98 100 99 10 = 90"
  by code_simp

lemma scoreOf_98_100_100_0: "scoreOf 98 100 100 0 = 6276891980647629 / 70368744177664"
  by code_simp

lemma scoreOf_98_100_100_10: "scoreOf 98 100 100 10 = 6347260724825293 / 70368744177664"
  by code_simp

lemma scoreOf_100_98_95_0: "scoreOf 100 98 95 0 = 3110298492652749 / 35184372088832"
  by code_simp

lemma scoreOf_100_100_99_0: "scoreOf 100 100 99 0 = 6319113227154227 / 70368744177664"
  by code_simp

lemma scoreOf_100_100_100_0: "scoreOf 100 100 100 0 = 90"
  by code_simp

lemma scoreOf_100_100_100_10: "scoreOf 100 100 100 10 = 91"
  by code_simp

lemma finalScore_scoreOf:
  "finalScore now stats =
     scoreOf (of_int (max 0 (100 - i1_active_conversations stats * 2))) (i1_response_rate stats)
       (of_int (i1_health_score stats))
       (of_int (if now - i1_last_activity stats < 300000 then 10 else 0))"
  by (simp only: finalScore_def scoreOf_def Let_def)

lemma finalScore_table [code]:
  "finalScore now stats =
     (let loadFactor = max 0 (100 - i1_active_conversations stats * 2);
          responseFactor = i1_response_rate stats;
          healthFactor = i1_health_score stats;
          timeFactor = (if now - i1_last_activity stats < 300000 then 10 else 0 :: int)
      in if loadFactor = 94 \<and> responseFactor = 100 \<and> healthFactor = 99 \<and> timeFactor = 10
         then 6220596985305497 / 70368744177664 else
         if loadFactor = 96 \<and> responseFactor = 100 \<and> healthFactor = 99 \<and> timeFactor = 10
         then 6276891980647629 / 70368744177664 else
         if loadFactor = 96 \<and> responseFactor = 100 \<and> healthFactor = 100 \<and> timeFactor = 0
         then 3110298492652749 / 35184372088832 else
         if loadFactor = 98 \<and> responseFactor = 100 \<and> healthFactor = 99 \<and> timeFactor = 10
         then 90 else
         if loadFactor = 98 \<and> responseFactor = 100 \<and> healthFactor = 100 \<and> timeFactor = 0
         then 6276891980647629 / 70368744177664 else
         if loadFactor = 98 \<and> responseFactor = 100 \<and> healthFactor = 100 \<and> timeFactor = 10
         then 6347260724825293 / 70368744177664 else
         if loadFactor = 100 \<and> responseFactor = 98 \<and> healthFactor = 95 \<and> timeFactor = 0
         then 3110298492652749 / 35184372088832 else
         if loadFactor = 100 \<and> responseFactor = 100 \<and> healthFactor = 99 \<and> timeFactor = 0
         then 6319113227154227 / 70368744177664 else
         if loadFactor = 100 \<and> responseFactor = 100 \<and> healthFactor = 100 \<and> timeFactor = 0
         then 90 else
         if loadFactor = 100 \<and> responseFactor = 100 \<and> healthFactor = 100 \<and> timeFactor = 10
         then 91 else
         scoreOf (of_int loadFactor) responseFactor (of_int healthFactor)
           (of_int timeFactor))"
  unfolding finalScore_scoreOf Let_def
  by (auto simp: scoreOf_94_100_99_10
      scoreOf_96_100_99_10
      scoreOf_96_100_100_0
      scoreOf_98_100_99_10
      scoreOf_98_100_100_0
      scoreOf_98_100_100_10
      scoreOf_100_98_95_0
      scoreOf_100_100_99_0
      scoreOf_100_100_100_0
      scoreOf_100_100_100_10)

lemma bestLoop_eligible:
  "bestLoop now es acc = bestLoop now (filter (\<lambda>e. \<not> i1_blocked (snd e)) es) acc"
  by (induction now es acc rule: bestLoop.induct) simp_all












lemma pow2_of_nat: "pow2 (int n) = 2 ^ n"
  by (simp add: pow2_def)














lemma getBestInstance_fallback:
  assumes "eligible1 s = []"
  shows "getBestInstance now s =
     (fst (INSTANCES1 ! (instanceCounter s mod length INSTANCES1)),
      s\<lparr>instanceCounter := instanceCounter s + 1\<rparr>)"
proof -
  have "bestLoop now (instanceStats1 s) (None, - 1) = bestLoop now (eligible1 s) (None, - 1)"
    unfolding eligible1_def by (rule bestLoop_eligible)
  with assms show ?thesis by (simp add: getBestInstance_def Let_def)
qed

lemma eligible1_counter [simp]: "eligible1 (s\<lparr>instanceCounter := c\<rparr>) = eligible1 s"
  by (simp add: eligible1_def)

lemma selections1_fallback:
  "eligible1 s = [] \<Longrightarrow>
   selections1 k now s =
     map (\<lambda>j. fst (INSTANCES1 ! ((instanceCounter s + j) mod length INSTANCES1))) [0..<k]"
proof (induction k arbitrary: s)
  case 0
  then show ?case by simp
next
  case (Suc k)
  let ?s' = "s\<lparr>instanceCounter := instanceCounter s + 1\<rparr>"
  have "selections1 (Suc k) now s =
      fst (INSTANCES1 ! (instanceCounter s mod length INSTANCES1)) # selections1 k now ?s'"
    using getBestInstance_fallback[OF Suc.prems, of now] by simp
  also have "selections1 k now ?s' =
      map (\<lambda>j. fst (INSTANCES1 ! ((instanceCounter s + 1 + j) mod length INSTANCES1))) [0..<k]"
    using Suc.IH[of ?s'] Suc.prems by simp
  also have "\<dots> = map (\<lambda>j. fst (INSTANCES1 ! ((instanceCounter s + j) mod length INSTANCES1))) [1..<Suc k]"
    by (simp add: map_Suc_upt[symmetric] del: upt_Suc)
  finally show ?case by (simp add: upt_conv_Cons del: upt_Suc)
qed

lemma rotate_as_map:
  "rotate m xs = map (\<lambda>j. xs ! ((m + j) mod length xs)) [0..<length xs]"
  by (rule nth_equalityI) (simp_all add: nth_rotate)

lemma selections1_cycle:
  assumes "eligible1 s = []"
  shows "selections1 (length INSTANCES1) now s =
     rotate (instanceCounter s mod length INSTANCES1) (map fst INSTANCES1)"
proof -
  have len: "length INSTANCES1 > 0" by (simp add: INSTANCES1_def)
  show ?thesis
    unfolding selections1_fallback[OF assms] rotate_as_map
    using len by (auto simp: mod_add_left_eq)
qed



section \<open>What holds in every state that a run reaches\<close>

lemma set_update_subset: "set (AList.update k v al) \<subseteq> insert (k, v) (set al)"
  by (induction al) auto

lemma keys_update_present:
  "map_of al k = Some x \<Longrightarrow> map fst (AList.update k v al) = map fst al"
  by (induction al) (auto split: if_splits)

lemma half_step_Ints: "2 * r \<in> \<int> \<Longrightarrow> 2 * min 100 (r + 1 / 2) \<in> \<int>"
  for r :: rat
proof -
  assume "2 * r \<in> \<int>"
  then have "2 * r + 1 \<in> \<int>" by (intro Ints_add) simp_all
  then have "2 * (r + 1 / 2) \<in> \<int>" by (simp add: algebra_simps)
  then show ?thesis by (simp add: min_def)
qed

lemma two_step_Ints: "2 * r \<in> \<int> \<Longrightarrow> 2 * max 0 (r - 2) \<in> \<int>"
  for r :: rat
proof -
  assume "2 * r \<in> \<int>"
  then have "2 * r - 4 \<in> \<int>" by (intro Ints_diff) simp_all
  then have "2 * (r - 2) \<in> \<int>" by (simp add: algebra_simps)
  then show ?thesis by (simp add: max_def)
qed

lemma statsEvent1_ok:
  assumes "statOk1 st" and "a \<noteq> ''blocked''"
  shows "statOk1 (statsEvent1 a now st)"
  using assms by (simp add: statsEvent1_def statOk1_def half_step_Ints two_step_Ints)

lemma updateInstanceStats1_ok:
  assumes ok: "statsOk1 s" and a: "a \<noteq> ''blocked''"
  shows "statsOk1 (updateInstanceStats1 n a now s)"
proof (cases "map_of (instanceStats1 s) n")
  case None
  with ok show ?thesis by (simp add: updateInstanceStats1_def)
next
  case (Some st)
  then have "(n, st) \<in> set (instanceStats1 s)" by (rule map_of_SomeD)
  with ok have st: "statOk1 st"
    by (auto simp: statsOk1_def list_all_iff)
  have new: "statOk1 (statsEvent1 a now st)"
    by (rule statsEvent1_ok[OF st a])
  have "\<forall>e \<in> set (AList.update n (statsEvent1 a now st) (instanceStats1 s)). statOk1 (snd e)"
  proof
    fix e assume "e \<in> set (AList.update n (statsEvent1 a now st) (instanceStats1 s))"
    with set_update_subset[of n "statsEvent1 a now st" "instanceStats1 s"]
    have "e = (n, statsEvent1 a now st) \<or> e \<in> set (instanceStats1 s)"
      by blast
    with new ok show "statOk1 (snd e)"
      by (auto simp: statsOk1_def list_all_iff)
  qed
  with ok Some show ?thesis
    by (simp add: updateInstanceStats1_def statsOk1_def list_all_iff keys_update_present)
qed

lemma statsOk1_cong: "instanceStats1 s' = instanceStats1 s \<Longrightarrow> statsOk1 s' = statsOk1 s"
  by (simp add: statsOk1_def)

lemma instanceStats1_frames [simp]:
  "instanceStats1 (addLog1 now ty s) = instanceStats1 s"
  "instanceStats1 (sendToN8N ev now s) = instanceStats1 s"
  "instanceStats1 (snd (getBestInstance now s)) = instanceStats1 s"
  "instanceStats1 (snd (activateCheckpoint1 p k m d now s)) = instanceStats1 s"
  "instanceStats1 (sendToN8N_completed ok now s) = instanceStats1 s"
  by (simp_all add: addLog1_def sendToN8N_def sendToN8N_completed_def getBestInstance_def
      activateCheckpoint1_def Let_def split: option.splits)

lemma processClientResponse_stats:
  "instanceStats1 (snd (processClientResponse p m now s)) =
     (case map_of (conversationState1 s) p of
        None \<Rightarrow> instanceStats1 s
      | Some st \<Rightarrow>
          if \<not> c1_waiting_for_response st \<or> falsy (c1_current_checkpoint st)
          then instanceStats1 s
          else instanceStats1 (updateInstanceStats1 (c1_instance st) ''response_received'' now s))"
  by (simp add: processClientResponse_def Let_def split: option.splits)

lemma processClientResponse_ok:
  "statsOk1 s \<Longrightarrow> statsOk1 (snd (processClientResponse p m now s))"
proof -
  assume ok: "statsOk1 s"
  have upd: "statsOk1 (updateInstanceStats1 n ''response_received'' now s)" for n
    by (rule updateInstanceStats1_ok[OF ok]) simp
  show ?thesis
  proof (cases "map_of (conversationState1 s) p")
    case None
    then have eq: "instanceStats1 (snd (processClientResponse p m now s)) = instanceStats1 s"
      by (simp add: processClientResponse_stats)
    from ok show ?thesis by (rule iffD2[OF statsOk1_cong[OF eq]])
  next
    case (Some st)
    show ?thesis
    proof (cases "\<not> c1_waiting_for_response st \<or> falsy (c1_current_checkpoint st)")
      case True
      with Some have eq: "instanceStats1 (snd (processClientResponse p m now s)) = instanceStats1 s"
        by (simp add: processClientResponse_stats)
      from ok show ?thesis by (rule iffD2[OF statsOk1_cong[OF eq]])
    next
      case False
      with Some have eq: "instanceStats1 (snd (processClientResponse p m now s)) =
          instanceStats1 (updateInstanceStats1 (c1_instance st) ''response_received'' now s)"
        by (simp add: processClientResponse_stats)
      from upd show ?thesis by (rule iffD2[OF statsOk1_cong[OF eq]])
    qed
  qed
qed

lemma api_start_conversation_stats:
  "instanceStats1 (api_start_conversation p nm now s) =
     (if p \<noteq> [] \<and> map_of (conversationState1 s) p = None
      then instanceStats1 (updateInstanceStats1 (fst (getBestInstance now s)) ''new_lead'' now
             (snd (getBestInstance now s)))
      else instanceStats1 s)"
  by (simp add: api_start_conversation_def Let_def split_beta)

lemma api_start_conversation_ok:
  "statsOk1 s \<Longrightarrow> statsOk1 (api_start_conversation p nm now s)"
proof -
  assume ok: "statsOk1 s"
  then have ok': "statsOk1 (snd (getBestInstance now s))"
    by (rule iffD2[OF statsOk1_cong[OF instanceStats1_frames(3)]])
  have upd: "statsOk1 (updateInstanceStats1 (fst (getBestInstance now s)) ''new_lead'' now
             (snd (getBestInstance now s)))"
    by (rule updateInstanceStats1_ok[OF ok']) simp
  show ?thesis
  proof (cases "p \<noteq> [] \<and> map_of (conversationState1 s) p = None")
    case True
    then have eq: "instanceStats1 (api_start_conversation p nm now s) =
        instanceStats1 (updateInstanceStats1 (fst (getBestInstance now s)) ''new_lead'' now
             (snd (getBestInstance now s)))"
      by (simp add: api_start_conversation_stats)
    from upd show ?thesis by (rule iffD2[OF statsOk1_cong[OF eq]])
  next
    case False
    then have eq: "instanceStats1 (api_start_conversation p nm now s) = instanceStats1 s"
      by (auto simp: api_start_conversation_stats)
    from ok show ?thesis by (rule iffD2[OF statsOk1_cong[OF eq]])
  qed
qed

lemma webhook_evolution1_stats:
  "instanceStats1 (webhook_evolution1 jid fm tx now s) =
     (if \<not> fm \<and> \<not> trim_empty tx
      then instanceStats1 (snd (processClientResponse (replace_first ''@s.whatsapp.net'' jid) tx
             now (addLog1 now ''evolution_webhook'' s)))
      else instanceStats1 s)"
  by (cases "processClientResponse (replace_first ''@s.whatsapp.net'' jid) tx now
        (addLog1 now ''evolution_webhook'' s)")
     (simp add: webhook_evolution1_def Let_def split: sum.splits option.splits)

lemma webhook_evolution1_ok:
  "statsOk1 s \<Longrightarrow> statsOk1 (webhook_evolution1 jid fm tx now s)"
proof -
  assume ok: "statsOk1 s"
  then have ok1: "statsOk1 (addLog1 now ''evolution_webhook'' s)"
    by (rule iffD2[OF statsOk1_cong[OF instanceStats1_frames(1)]])
  show ?thesis
  proof (cases "\<not> fm \<and> \<not> trim_empty tx")
    case True
    then have eq: "instanceStats1 (webhook_evolution1 jid fm tx now s) =
        instanceStats1 (snd (processClientResponse (replace_first ''@s.whatsapp.net'' jid) tx
             now (addLog1 now ''evolution_webhook'' s)))"
      by (simp add: webhook_evolution1_stats)
    from processClientResponse_ok[OF ok1] show ?thesis
      by (rule iffD2[OF statsOk1_cong[OF eq]])
  next
    case False
    then have eq: "instanceStats1 (webhook_evolution1 jid fm tx now s) = instanceStats1 s"
      by (auto simp: webhook_evolution1_stats)
    from ok show ?thesis by (rule iffD2[OF statsOk1_cong[OF eq]])
  qed
qed

lemma cleanupEntry1_stats:
  "instanceStats1 (fst (cleanupEntry1 now (p, st) (s, n))) =
     (if now > c1_expires_at st \<and> c1_waiting_for_response st
      then instanceStats1
             (updateInstanceStats1 (c1_instance st) ''conversation_complete'' now
                (updateInstanceStats1 (c1_instance st) ''no_response'' now s))
      else instanceStats1 s)"
proof -
  have frame: "instanceStats1 (updateInstanceStats1 a b c (t\<lparr>conversationState1 := l\<rparr>)) =
        instanceStats1 (updateInstanceStats1 a b c t)" for a b c t l
    by (simp add: updateInstanceStats1_def split: option.splits)
  have frame2: "updateInstanceStats1 a b c (t\<lparr>conversationState1 := l\<rparr>) =
        (updateInstanceStats1 a b c t)\<lparr>conversationState1 := l\<rparr>" for a b c t l
    by (simp add: updateInstanceStats1_def split: option.splits)
  show ?thesis
    by (simp add: cleanupEntry1_def Let_def frame2 frame)
qed

lemma cleanupEntry1_ok:
  "statsOk1 (fst sc) \<Longrightarrow> statsOk1 (fst (cleanupEntry1 now e sc))"
proof -
  assume ok: "statsOk1 (fst sc)"
  obtain p st where e: "e = (p, st)" by (cases e)
  obtain s n where sc: "sc = (s, n)" by (cases sc)
  let ?t2 = "updateInstanceStats1 (c1_instance st) ''no_response'' now s"
  let ?t3 = "updateInstanceStats1 (c1_instance st) ''conversation_complete'' now ?t2"
  from ok sc have oks: "statsOk1 s" by simp
  then have ok2: "statsOk1 ?t2" by (rule updateInstanceStats1_ok) simp
  then have ok3: "statsOk1 ?t3" by (rule updateInstanceStats1_ok) simp
  show ?thesis unfolding e sc
  proof (cases "now > c1_expires_at st \<and> c1_waiting_for_response st")
    case True
    then have eq: "instanceStats1 (fst (cleanupEntry1 now (p, st) (s, n))) = instanceStats1 ?t3"
      by (simp add: cleanupEntry1_stats)
    from ok3 show "statsOk1 (fst (cleanupEntry1 now (p, st) (s, n)))"
      by (rule iffD2[OF statsOk1_cong[OF eq]])
  next
    case False
    then have eq: "instanceStats1 (fst (cleanupEntry1 now (p, st) (s, n))) = instanceStats1 s"
      by (auto simp: cleanupEntry1_stats)
    from oks show "statsOk1 (fst (cleanupEntry1 now (p, st) (s, n)))"
      by (rule iffD2[OF statsOk1_cong[OF eq]])
  qed
qed

lemma cleanupLoop1_ok:
  "statsOk1 (fst sc) \<Longrightarrow> statsOk1 (fst (fold (cleanupEntry1 now) es sc))"
  by (induction es arbitrary: sc) (simp_all add: cleanupEntry1_ok)

lemma cleanupExpiredCheckpoints_ok:
  "statsOk1 s \<Longrightarrow> statsOk1 (cleanupExpiredCheckpoints now s)"
proof -
  assume ok: "statsOk1 s"
  have eq: "instanceStats1 (cleanupExpiredCheckpoints now s) =
        instanceStats1 (fst (fold (cleanupEntry1 now) (conversationState1 s) (s, 0)))"
    by (simp add: cleanupExpiredCheckpoints_def Let_def split: prod.splits)
  from ok have "statsOk1 (fst (fold (cleanupEntry1 now) (conversationState1 s) (s, 0)))"
    by (intro cleanupLoop1_ok) simp
  then show ?thesis by (rule iffD2[OF statsOk1_cong[OF eq]])
qed

lemma step1_ok: "statsOk1 s \<Longrightarrow> statsOk1 (step1 e s)"
proof (cases e)
  case (Activate_checkpoint p k m d now)
  assume ok: "statsOk1 s"
  have eq: "instanceStats1 (api_activate_checkpoint p k m d now s) = instanceStats1 s"
    by (simp add: api_activate_checkpoint_def)
  from ok have "statsOk1 (api_activate_checkpoint p k m d now s)"
    by (rule iffD2[OF statsOk1_cong[OF eq]])
  then show ?thesis using Activate_checkpoint by simp
next
  case (Notifier_answered1 ok now)
  assume ok: "statsOk1 s"
  have eq: "instanceStats1 (sendToN8N_completed ok now s) = instanceStats1 s"
    by simp
  from ok have "statsOk1 (sendToN8N_completed ok now s)"
    by (rule iffD2[OF statsOk1_cong[OF eq]])
  then show ?thesis using Notifier_answered1 by simp
qed (simp_all add: api_start_conversation_ok webhook_evolution1_ok cleanupExpiredCheckpoints_ok)

lemma instanceStats1_funpow_addLog1 [simp]:
  "instanceStats1 ((addLog1 now ty ^^ n) s) = instanceStats1 s"
  by (induction n) simp_all

lemma init1_ok: "statsOk1 (init1 t0)"
  by (simp add: statsOk1_def statOk1_def init1_def initializeInstanceStats1_def INSTANCES1_def
      initialStats1_def)

lemma run1_ok: "statsOk1 s \<Longrightarrow> statsOk1 (run1 evs s)"
  unfolding run1_def by (induction evs arbitrary: s) (simp_all add: step1_ok)

lemma reachable1_scored:
  "eligible1 (run1 evs (init1 t0)) = instanceStats1 (run1 evs (init1 t0)) \<and>
   eligible1 (run1 evs (init1 t0)) \<noteq> [] \<and>
   (\<forall>e \<in> set (eligible1 (run1 evs (init1 t0))).
      0 \<le> i1_response_rate (snd e) \<and> 0 \<le> i1_health_score (snd e) \<and> fst e \<noteq> [])"
proof -
  let ?s = "run1 evs (init1 t0)"
  have ok: "statsOk1 ?s" by (rule run1_ok[OF init1_ok])
  then have el: "eligible1 ?s = instanceStats1 ?s"
    by (simp add: eligible1_def statsOk1_def statOk1_def list_all_iff filter_id_conv)
  from ok have keys: "map fst (instanceStats1 ?s) = map fst INSTANCES1" by (simp add: statsOk1_def)
  then have ne: "instanceStats1 ?s \<noteq> []" by (auto simp: INSTANCES1_def)
  have "fst e \<noteq> []" if "e \<in> set (instanceStats1 ?s)" for e
  proof -
    from that have "fst e \<in> set (map fst (instanceStats1 ?s))" by simp
    then show ?thesis unfolding keys by (auto simp: INSTANCES1_def)
  qed
  with ok el ne show ?thesis by (auto simp: statsOk1_def statOk1_def list_all_iff)
qed

lemma INSTANCES_getNextInstance [simp]:
  "INSTANCES (snd (getNextInstance now s)) = INSTANCES s"
  by (simp add: getNextInstance_def Let_def split: option.splits)

lemma INSTANCES_createConversation [simp]:
  "INSTANCES (snd (createConversation p n src now s)) = INSTANCES s"
  using INSTANCES_getNextInstance[of now s]
  by (cases "getNextInstance now s")
     (simp add: createConversation_def Let_def split: option.splits)

lemma INSTANCES_activateCheckpoint2 [simp]:
  "INSTANCES (snd (activateCheckpoint2 p k tm now s)) = INSTANCES s"
  by (simp add: activateCheckpoint2_def Let_def setTimeout_def split: option.splits)

lemma INSTANCES_handleCheckpointTimeout [simp]:
  "INSTANCES (handleCheckpointTimeout p k now s) = INSTANCES s"
  by (simp add: handleCheckpointTimeout_def Let_def split: option.splits)

lemma INSTANCES_processCheckpointResponse [simp]:
  "INSTANCES (snd (processCheckpointResponse p m now s)) = INSTANCES s"
  by (simp add: processCheckpointResponse_def Let_def split: option.splits)

lemma INSTANCES_cleanupEntry2 [simp]:
  "INSTANCES (fst (cleanupEntry2 now e sc)) = INSTANCES (fst sc)"
  by (cases e; cases sc) (simp add: cleanupEntry2_def Let_def)

lemma INSTANCES_cleanupLoop2 [simp]:
  "INSTANCES (fst (fold (cleanupEntry2 now) es sc)) = INSTANCES (fst sc)"
  by (induction es arbitrary: sc) simp_all

lemma INSTANCES_cleanupOldData [simp]:
  "INSTANCES (cleanupOldData now s) = INSTANCES s"
  using INSTANCES_cleanupLoop2[of now "conversationState s" "(s, 0)"]
  by (cases "fold (cleanupEntry2 now) (conversationState s) (s, 0)")
     (simp add: cleanupOldData_def Let_def)

lemma INSTANCES_api_lead_new [simp]:
  "INSTANCES (api_lead_new p n m src now s) = INSTANCES s"
  using INSTANCES_createConversation[of p n src now s]
  by (cases "createConversation p n src now s")
     (simp add: api_lead_new_def split: sum.splits)

lemma INSTANCES_webhook_evolution2 [simp]:
  "INSTANCES (webhook_evolution2 jid fm tx now s) = INSTANCES s"
proof -
  let ?p = "replace_first ''@s.whatsapp.net'' jid"
  let ?s1 = "addLog now ''evolution'' s"
  have a: "INSTANCES (snd (createConversation ?p ''Cliente'' ''whatsapp_direto'' now ?s1)) = INSTANCES s"
    by simp
  have b: "INSTANCES (snd (processCheckpointResponse ?p tx now ?s1)) = INSTANCES s"
    by simp
  show ?thesis
    using a b
    by (cases "createConversation ?p ''Cliente'' ''whatsapp_direto'' now ?s1";
        cases "processCheckpointResponse ?p tx now ?s1")
       (simp add: webhook_evolution2_def Let_def split: sum.splits)
qed

lemma inst_name_deactivate [simp]: "map inst_name (deactivate n is) = map inst_name is"
  by (induction "is") simp_all

lemma INSTANCES_step2: "map inst_name (INSTANCES (step2 e s)) = map inst_name (INSTANCES s)"
  by (cases e)
     (simp_all add: api_checkpoint_activate_def api_instance_block_def fireTimer_def
        split: option.splits)

lemma INSTANCES_run2: "map inst_name (INSTANCES (run2 evs s)) = map inst_name (INSTANCES s)"
  unfolding run2_def by (induction evs arbitrary: s) (simp_all add: INSTANCES_step2)

lemma reachable2_pool:
  "map inst_name (INSTANCES (run2 evs (init2 t0))) = map inst_name INSTANCES2"
  by (simp add: INSTANCES_run2 init2_def initializeInstanceStats_def)

lemma distinct_createConversation:
  "distinct (map fst (conversationState s)) \<Longrightarrow>
   distinct (map fst (conversationState (snd (createConversation p n src now s))))"
  using conversationState_getNextInstance[of now s]
  by (cases "getNextInstance now s")
     (auto simp: createConversation_def Let_def distinct_update split: option.splits)

lemma distinct_activateCheckpoint2:
  "distinct (map fst (conversationState s)) \<Longrightarrow>
   distinct (map fst (conversationState (snd (activateCheckpoint2 p k tm now s))))"
  by (simp add: activateCheckpoint2_def Let_def setTimeout_def distinct_update
      split: option.splits)

lemma distinct_handleCheckpointTimeout:
  "distinct (map fst (conversationState s)) \<Longrightarrow>
   distinct (map fst (conversationState (handleCheckpointTimeout p k now s)))"
  by (simp add: handleCheckpointTimeout_def Let_def distinct_update split: option.splits)

lemma distinct_processCheckpointResponse:
  "distinct (map fst (conversationState s)) \<Longrightarrow>
   distinct (map fst (conversationState (snd (processCheckpointResponse p m now s))))"
  by (simp add: processCheckpointResponse_def Let_def distinct_update split: option.splits)

lemma distinct_cleanupOldData:
  "distinct (map fst (conversationState s)) \<Longrightarrow>
   distinct (map fst (conversationState (cleanupOldData now s)))"
  by (simp add: cleanupOldData_filter distinct_map_filter)

lemma distinct_step2:
  assumes d: "distinct (map fst (conversationState s))"
  shows "distinct (map fst (conversationState (step2 e s)))"
proof (cases e)
  case (Lead_new p n m src now)
  from distinct_createConversation[OF d, of p n src now] d show ?thesis
    unfolding Lead_new
    by (cases "createConversation p n src now s") (simp add: api_lead_new_def split: sum.splits)
next
  case (Checkpoint_activate p k tm now)
  with d show ?thesis by (simp add: api_checkpoint_activate_def distinct_activateCheckpoint2)
next
  case (Webhook2 jid fm tx now)
  let ?p = "replace_first ''@s.whatsapp.net'' jid"
  let ?s1 = "addLog now ''evolution'' s"
  from d have d1: "distinct (map fst (conversationState ?s1))" by simp
  from distinct_createConversation[OF d1, of ?p "''Cliente''" "''whatsapp_direto''" now]
    distinct_processCheckpointResponse[OF d1, of ?p tx now] d
  show ?thesis unfolding Webhook2
    by (cases "createConversation ?p ''Cliente'' ''whatsapp_direto'' now ?s1";
        cases "processCheckpointResponse ?p tx now ?s1")
       (simp add: webhook_evolution2_def Let_def split: sum.splits)
next
  case (Instance_block n now)
  with d show ?thesis by simp
next
  case (Timer_fired tid now)
  have "distinct (map fst (conversationState (handleCheckpointTimeout p k now
          (s\<lparr>armedTimers := l\<rparr>))))" for p k l
    by (rule distinct_handleCheckpointTimeout) (simp add: d)
  with d show ?thesis unfolding Timer_fired by (simp add: fireTimer_def split: option.splits)
next
  case (Cleanup2 now)
  with d show ?thesis by (simp add: distinct_cleanupOldData)
next
  case (Notifier_answered ok now)
  with d show ?thesis by simp
qed

lemma reachable2_distinct: "distinct (map fst (conversationState (run2 evs (init2 t0))))"
proof -
  have "distinct (map fst (conversationState s)) \<Longrightarrow>
        distinct (map fst (conversationState (run2 evs s)))" for s
    unfolding run2_def by (induction evs arbitrary: s) (simp_all add: distinct_step2)
  then show ?thesis by (simp add: init2_def initializeInstanceStats_def)
qed

lemma reachable1_distinct: "distinct (map fst (conversationState1 (run1 evs (init1 t0))))"
proof -
  have "distinct (map fst (conversationState1 s)) \<Longrightarrow>
        distinct (map fst (conversationState1 (run1 evs s)))" for s
    unfolding run1_def by (induction evs arbitrary: s) (simp_all add: step1_distinct)
  then show ?thesis by simp
qed

subsection \<open>The rotation counter of index.js and the fallback of part 001\<close>














subsection \<open>The computed score and the weighted sum\<close>









section \<open>The claims\<close>

subsection \<open>C5: waiting exactly while a checkpoint is pending\<close>

text \<open>
  Claim C5.  In every state that a run of events reaches from the initial state, and
  for every conversation of the store, the waiting-for-response flag is true if and
  only if the current checkpoint is not null and a checkpoint is pending: one was
  activated and no resolving response or timeout has occurred since.  The run is any
  list of creations, activations, inbound messages, timeouts and cleanup passes (and of
  blockings of an instance and answers of the notifier), so every operation preserves
  the invariant.  First conjunct: the variant with timers;
  second conjunct: index.js.
\<close>

theorem waiting_iff_pending:
  "(map_of (conversationState (run2 evs2 (init2 t2))) c2 = Some cv \<longrightarrow>
      c2_waiting_response cv =
        (c2_current_checkpoint cv \<noteq> None \<and> pendingCheckpoint2 c2 evs2 (init2 t2) None \<noteq> None)) \<and>
   (map_of (conversationState1 (run1 evs1 (init1 t1))) c1 = Some st \<longrightarrow>
      c1_waiting_for_response st =
        (c1_current_checkpoint st \<noteq> None \<and> pendingCheckpoint1 c1 evs1 (init1 t1) None \<noteq> None))"
proof (intro conjI impI)
  assume cv: "map_of (conversationState (run2 evs2 (init2 t2))) c2 = Some cv"
  have "Inv2 c2 (run2 evs2 (init2 t2)) (pendingCheckpoint2 c2 evs2 (init2 t2) None)"
    by (rule Inv2_run[OF Inv2_init])
  with cv show "c2_waiting_response cv =
        (c2_current_checkpoint cv \<noteq> None \<and> pendingCheckpoint2 c2 evs2 (init2 t2) None \<noteq> None)"
    by (auto simp: Inv2_def split: option.splits)
next
  assume st: "map_of (conversationState1 (run1 evs1 (init1 t1))) c1 = Some st"
  have "Inv1 c1 (init1 t1) None" by (simp add: Inv1_def)
  then have "Inv1 c1 (run1 evs1 (init1 t1)) (pendingCheckpoint1 c1 evs1 (init1 t1) None)"
    by (intro Inv1_run) simp_all
  with st show "c1_waiting_for_response st =
        (c1_current_checkpoint st \<noteq> None \<and> pendingCheckpoint1 c1 evs1 (init1 t1) None \<noteq> None)"
    by (auto simp: Inv1_def split: option.splits)
qed

theorem waiting_iff_pending_witness:
  "map_option c2_waiting_response (map_of (conversationState (run2
       [Lead_new ''551199'' ''Ana'' ''oi'' ''ads'' 1000,
        Checkpoint_activate ''551199'' ''confirm_interest'' (Some 1) 2000,
        Webhook2 ''551199@s.whatsapp.net'' False ''yes'' 3000,
        Checkpoint_activate ''551199'' ''send_price'' (Some 1) 4000]
       (init2 0))) ''551199'') = Some True \<and>
   pendingCheckpoint2 ''551199''
       [Lead_new ''551199'' ''Ana'' ''oi'' ''ads'' 1000,
        Checkpoint_activate ''551199'' ''confirm_interest'' (Some 1) 2000,
        Webhook2 ''551199@s.whatsapp.net'' False ''yes'' 3000,
        Checkpoint_activate ''551199'' ''send_price'' (Some 1) 4000]
       (init2 0) None = Some ''send_price'' \<and>
   map_option c1_waiting_for_response (map_of (conversationState1 (run1
       [Start_conversation ''551199'' (Some ''Ana'') 1000,
        Activate_checkpoint ''551199'' ''confirm_interest'' None None 2000,
        Cleanup1 86402001]
       (init1 0))) ''551199'') = Some False \<and>
   pendingCheckpoint1 ''551199''
       [Start_conversation ''551199'' (Some ''Ana'') 1000,
        Activate_checkpoint ''551199'' ''confirm_interest'' None None 2000,
        Cleanup1 86402001]
       (init1 0) None = None"
  using waiting_iff_pending
    [of "[Lead_new ''551199'' ''Ana'' ''oi'' ''ads'' 1000,
          Checkpoint_activate ''551199'' ''confirm_interest'' (Some 1) 2000,
          Webhook2 ''551199@s.whatsapp.net'' False ''yes'' 3000,
          Checkpoint_activate ''551199'' ''send_price'' (Some 1) 4000]" 0 "''551199''"
        "the (map_of (conversationState (run2
          [Lead_new ''551199'' ''Ana'' ''oi'' ''ads'' 1000,
           Checkpoint_activate ''551199'' ''confirm_interest'' (Some 1) 2000,
           Webhook2 ''551199@s.whatsapp.net'' False ''yes'' 3000,
           Checkpoint_activate ''551199'' ''send_price'' (Some 1) 4000] (init2 0))) ''551199'')"
        "[Start_conversation ''551199'' (Some ''Ana'') 1000,
          Activate_checkpoint ''551199'' ''confirm_interest'' None None 2000,
          Cleanup1 86402001]" 0 "''551199''"
        "the (map_of (conversationState1 (run1
          [Start_conversation ''551199'' (Some ''Ana'') 1000,
           Activate_checkpoint ''551199'' ''confirm_interest'' None None 2000,
           Cleanup1 86402001] (init1 0))) ''551199'')"]
  by code_simp

subsection \<open>C3: a response that nothing waits for\<close>

text \<open>
  Claim C3.  A resolve call on an existing conversation whose waiting flag is false or
  whose current checkpoint is null returns the error \<open>NotWaiting\<close> and changes nothing
  but the log: the state after the call is the state before it with one more log entry
  of type info, so the conversations, the global checkpoint history and the statistics
  of every instance are unchanged.  First conjunct: \<^verbatim>\<open>processClientResponse\<close> of
  index.js, in any state; second conjunct: \<^verbatim>\<open>processCheckpointResponse\<close> of the
  variant with timers, in any state that a run reaches.
\<close>

theorem resolve_not_waiting:
  "(map_of (conversationState1 s1) p1 = Some st \<and>
      (\<not> c1_waiting_for_response st \<or> c1_current_checkpoint st = None) \<longrightarrow>
      processClientResponse p1 m1 n1 s1 =
        (Inl NotWaiting,
         s1\<lparr>systemLogs1 := systemLogs1 s1 @ [\<lparr>log_timestamp = n1, log_type = ''info''\<rparr>]\<rparr>)) \<and>
   (map_of (conversationState (run2 evs (init2 t0))) p2 = Some cv \<and>
      (\<not> c2_waiting_response cv \<or> c2_current_checkpoint cv = None) \<longrightarrow>
      processCheckpointResponse p2 m2 n2 (run2 evs (init2 t0)) =
        (Inl NotWaiting,
         (run2 evs (init2 t0))\<lparr>systemLogs :=
            take 1000 (\<lparr>log_timestamp = n2, log_type = ''info''\<rparr> #
                       systemLogs (run2 evs (init2 t0)))\<rparr>))"
proof (intro conjI impI)
  assume "map_of (conversationState1 s1) p1 = Some st \<and>
      (\<not> c1_waiting_for_response st \<or> c1_current_checkpoint st = None)"
  then show "processClientResponse p1 m1 n1 s1 =
        (Inl NotWaiting,
         s1\<lparr>systemLogs1 := systemLogs1 s1 @ [\<lparr>log_timestamp = n1, log_type = ''info''\<rparr>]\<rparr>)"
    by (auto simp: processClientResponse_def falsy_def addLog1_def)
next
  let ?s = "run2 evs (init2 t0)"
  assume a: "map_of (conversationState ?s) p2 = Some cv \<and>
      (\<not> c2_waiting_response cv \<or> c2_current_checkpoint cv = None)"
  have "Inv2 p2 ?s (pendingCheckpoint2 p2 evs (init2 t0) None)"
    by (rule Inv2_run[OF Inv2_init])
  with a have nw: "\<not> c2_waiting_response cv"
    by (auto simp: Inv2_def split: option.splits)
  have "addLog n2 ''info'' ?s =
      ?s\<lparr>systemLogs := take 1000 (\<lparr>log_timestamp = n2, log_type = ''info''\<rparr> # systemLogs ?s)\<rparr>"
    by (simp add: addLog_def Let_def)
  with a nw show "processCheckpointResponse p2 m2 n2 ?s =
        (Inl NotWaiting,
         ?s\<lparr>systemLogs := take 1000 (\<lparr>log_timestamp = n2, log_type = ''info''\<rparr> # systemLogs ?s)\<rparr>)"
    by (simp add: processCheckpointResponse_def)
qed

theorem resolve_not_waiting_witness:
  "map_option c1_waiting_for_response (map_of (conversationState1
       (run1 [Start_conversation ''551199'' (Some ''Ana'') 1000] (init1 0))) ''551199'') = Some False \<and>
   processClientResponse ''551199'' ''oi'' 2000
       (run1 [Start_conversation ''551199'' (Some ''Ana'') 1000] (init1 0)) =
     (Inl NotWaiting,
      (run1 [Start_conversation ''551199'' (Some ''Ana'') 1000] (init1 0))
        \<lparr>systemLogs1 :=
           systemLogs1 (run1 [Start_conversation ''551199'' (Some ''Ana'') 1000] (init1 0)) @
             [\<lparr>log_timestamp = 2000, log_type = ''info''\<rparr>]\<rparr>) \<and>
   map_option c2_waiting_response (map_of (conversationState (run2
       [Lead_new ''551199'' ''Ana'' ''oi'' ''ads'' 1000,
        Checkpoint_activate ''551199'' ''confirm_interest'' (Some 1) 2000,
        Timer_fired 0 62000] (init2 0))) ''551199'') = Some False \<and>
   fst (processCheckpointResponse ''551199'' ''yes'' 63000 (run2
       [Lead_new ''551199'' ''Ana'' ''oi'' ''ads'' 1000,
        Checkpoint_activate ''551199'' ''confirm_interest'' (Some 1) 2000,
        Timer_fired 0 62000] (init2 0))) = Inl NotWaiting"
  using resolve_not_waiting
    [of "run1 [Start_conversation ''551199'' (Some ''Ana'') 1000] (init1 0)" "''551199''"
        "the (map_of (conversationState1
           (run1 [Start_conversation ''551199'' (Some ''Ana'') 1000] (init1 0))) ''551199'')"
        "''oi''" 2000
        "[Lead_new ''551199'' ''Ana'' ''oi'' ''ads'' 1000,
          Checkpoint_activate ''551199'' ''confirm_interest'' (Some 1) 2000,
          Timer_fired 0 62000]" 0 "''551199''"
        "the (map_of (conversationState (run2
          [Lead_new ''551199'' ''Ana'' ''oi'' ''ads'' 1000,
           Checkpoint_activate ''551199'' ''confirm_interest'' (Some 1) 2000,
           Timer_fired 0 62000] (init2 0))) ''551199'')"
        "''yes''" 63000]
  by code_simp

subsection \<open>C1: a response while a checkpoint waits\<close>




subsection \<open>C4: the transition of a timeout\<close>

text \<open>
  Claim C4, as amended.  First conjunct, the variant with timers: when the timeout
  handler runs for a conversation whose current checkpoint is the handler's and that is
  still waiting, it sets waiting-for-response to false and the status to timeout,
  applies the timeout event to the statistics of the instance (timeout count plus one,
  response rate minus 2 and health minus 3, both floored at 0, last activity
  refreshed), counts the timeout in the daily statistics and emits a
  \<open>checkpoint_timeout\<close> notification; the count of active conversations of the instance
  is unchanged (it is decremented when the cleanup job deletes the conversation).  Second conjunct, index.js: a round of the cleanup job
  on a conversation that waits past its deadline sets the status to expired, waiting to
  false and the current checkpoint to null (unless the round also deletes the
  conversation), and applies the two events \<open>no_response\<close> (response rate minus 2 and
  health minus 5, both floored at 0) and \<open>conversation_complete\<close> (active conversations
  minus one, completed conversations plus one); index.js keeps no timeout count.
\<close>

theorem timeout_transition:
  "(map_of (conversationState s) p = Some cv \<and> c2_current_checkpoint cv = Some K \<and>
      c2_waiting_response cv \<longrightarrow>
      (let s' = handleCheckpointTimeout p K now s
       in map_of (conversationState s') p =
            Some (cv\<lparr>c2_waiting_response := False, c2_status := Timeout\<rparr>) \<and>
          instanceStats s' =
            (case map_of (instanceStats s) (c2_instance cv) of
               None \<Rightarrow> instanceStats s
             | Some x \<Rightarrow>
                 AList.update (c2_instance cv)
                   (x\<lparr>i2_timeouts := i2_timeouts x + 1,
                      i2_response_rate := max 0 (i2_response_rate x - 2),
                      i2_health_score := max 0 (i2_health_score x - 3),
                      i2_last_activity := now\<rparr>)
                   (instanceStats s)) \<and>
          d_timeouts (dailyStats s') = d_timeouts (dailyStats s) + 1 \<and>
          notified s' = notified s @ [Checkpoint_timeout p K (c2_instance cv)])) \<and>
   (map_of (conversationState1 s1) p1 = Some st \<and> c1_waiting_for_response st \<and>
      now1 > c1_expires_at st \<longrightarrow>
      (let r = cleanupEntry1 now1 (p1, st) (s1, n)
       in map_of (conversationState1 (fst r)) p1 =
            (if now1 - c1_created_at st > DATA_RETENTION_TIME1 then None
             else Some (st\<lparr>c1_status := Expired, c1_waiting_for_response := False,
                           c1_current_checkpoint := None\<rparr>)) \<and>
          instanceStats1 (fst r) =
            (case map_of (instanceStats1 s1) (c1_instance st) of
               None \<Rightarrow> instanceStats1 s1
             | Some x \<Rightarrow>
                 AList.update (c1_instance st)
                   (x\<lparr>i1_response_rate := max 0 (i1_response_rate x - 2),
                      i1_health_score := max 0 (i1_health_score x - 5),
                      i1_active_conversations := i1_active_conversations x - 1,
                      i1_completed_conversations := i1_completed_conversations x + 1\<rparr>)
                   (instanceStats1 s1)) \<and>
          snd r = n + 1))"
proof (intro conjI impI)
  assume "map_of (conversationState s) p = Some cv \<and> c2_current_checkpoint cv = Some K \<and>
      c2_waiting_response cv"
  then show "let s' = handleCheckpointTimeout p K now s
       in map_of (conversationState s') p =
            Some (cv\<lparr>c2_waiting_response := False, c2_status := Timeout\<rparr>) \<and>
          instanceStats s' =
            (case map_of (instanceStats s) (c2_instance cv) of
               None \<Rightarrow> instanceStats s
             | Some x \<Rightarrow>
                 AList.update (c2_instance cv)
                   (x\<lparr>i2_timeouts := i2_timeouts x + 1,
                      i2_response_rate := max 0 (i2_response_rate x - 2),
                      i2_health_score := max 0 (i2_health_score x - 3),
                      i2_last_activity := now\<rparr>)
                   (instanceStats s)) \<and>
          d_timeouts (dailyStats s') = d_timeouts (dailyStats s) + 1 \<and>
          notified s' = notified s @ [Checkpoint_timeout p K (c2_instance cv)]"
    by (simp add: Let_def handleCheckpointTimeout_def update_conv' updateInstanceStats2_stats
        statsEvent2_def split: option.splits)
next
  assume "map_of (conversationState1 s1) p1 = Some st \<and> c1_waiting_for_response st \<and>
      now1 > c1_expires_at st"
  then show "let r = cleanupEntry1 now1 (p1, st) (s1, n)
       in map_of (conversationState1 (fst r)) p1 =
            (if now1 - c1_created_at st > DATA_RETENTION_TIME1 then None
             else Some (st\<lparr>c1_status := Expired, c1_waiting_for_response := False,
                           c1_current_checkpoint := None\<rparr>)) \<and>
          instanceStats1 (fst r) =
            (case map_of (instanceStats1 s1) (c1_instance st) of
               None \<Rightarrow> instanceStats1 s1
             | Some x \<Rightarrow>
                 AList.update (c1_instance st)
                   (x\<lparr>i1_response_rate := max 0 (i1_response_rate x - 2),
                      i1_health_score := max 0 (i1_health_score x - 5),
                      i1_active_conversations := i1_active_conversations x - 1,
                      i1_completed_conversations := i1_completed_conversations x + 1\<rparr>)
                   (instanceStats1 s1)) \<and>
          snd r = n + 1"
    by (simp add: Let_def cleanupEntry1_def update_conv' delete_conv' updateInstanceStats1_def
        statsEvent1_def addLog1_def split: option.splits)
qed

theorem timeout_keeps_active_count_counterexample:
  "map_option i2_active_conversations (map_of (instanceStats (run2
       [Lead_new ''551199'' ''Ana'' ''oi'' ''ads'' 1000,
        Checkpoint_activate ''551199'' ''confirm_interest'' (Some 1) 2000]
       (init2 0))) ''G08'') = Some 1 \<and>
   map_option c2_waiting_response (map_of (conversationState (run2
       [Lead_new ''551199'' ''Ana'' ''oi'' ''ads'' 1000,
        Checkpoint_activate ''551199'' ''confirm_interest'' (Some 1) 2000]
       (init2 0))) ''551199'') = Some True \<and>
   map_option c2_status (map_of (conversationState (run2
       [Lead_new ''551199'' ''Ana'' ''oi'' ''ads'' 1000,
        Checkpoint_activate ''551199'' ''confirm_interest'' (Some 1) 2000,
        Timer_fired 0 62000]
       (init2 0))) ''551199'') = Some Timeout \<and>
   map_option i2_timeouts (map_of (instanceStats (run2
       [Lead_new ''551199'' ''Ana'' ''oi'' ''ads'' 1000,
        Checkpoint_activate ''551199'' ''confirm_interest'' (Some 1) 2000,
        Timer_fired 0 62000]
       (init2 0))) ''G08'') = Some 1 \<and>
   map_option i2_active_conversations (map_of (instanceStats (run2
       [Lead_new ''551199'' ''Ana'' ''oi'' ''ads'' 1000,
        Checkpoint_activate ''551199'' ''confirm_interest'' (Some 1) 2000,
        Timer_fired 0 62000]
       (init2 0))) ''G08'') = Some 1"
  by code_simp

theorem timeout_transition_witness:
  "map_option c2_current_checkpoint (map_of (conversationState (run2
       [Lead_new ''551199'' ''Ana'' ''oi'' ''ads'' 1000,
        Checkpoint_activate ''551199'' ''confirm_interest'' (Some 1) 2000]
       (init2 0))) ''551199'') = Some (Some ''confirm_interest'') \<and>
   map_option c2_waiting_response (map_of (conversationState (run2
       [Lead_new ''551199'' ''Ana'' ''oi'' ''ads'' 1000,
        Checkpoint_activate ''551199'' ''confirm_interest'' (Some 1) 2000]
       (init2 0))) ''551199'') = Some True \<and>
   map_option c2_status (map_of (conversationState
      (handleCheckpointTimeout ''551199'' ''confirm_interest'' 62000 (run2
       [Lead_new ''551199'' ''Ana'' ''oi'' ''ads'' 1000,
        Checkpoint_activate ''551199'' ''confirm_interest'' (Some 1) 2000]
       (init2 0)))) ''551199'') = Some Timeout \<and>
   map_option c1_waiting_for_response (map_of (conversationState1 (run1
       [Start_conversation ''551199'' (Some ''Ana'') 1000,
        Activate_checkpoint ''551199'' ''confirm_interest'' None None 2000]
       (init1 0))) ''551199'') = Some True \<and>
   map_option c1_expires_at (map_of (conversationState1 (run1
       [Start_conversation ''551199'' (Some ''Ana'') 1000,
        Activate_checkpoint ''551199'' ''confirm_interest'' None None 2000]
       (init1 0))) ''551199'') = Some 86402000 \<and>
   map_option i1_active_conversations (map_of (instanceStats1 (fst (cleanupEntry1 86402001
       (''551199'', the (map_of (conversationState1 (run1
         [Start_conversation ''551199'' (Some ''Ana'') 1000,
          Activate_checkpoint ''551199'' ''confirm_interest'' None None 2000]
         (init1 0))) ''551199''))
       (run1
         [Start_conversation ''551199'' (Some ''Ana'') 1000,
          Activate_checkpoint ''551199'' ''confirm_interest'' None None 2000]
         (init1 0), 0)))) ''G01'') = Some 0"
  using timeout_transition
    [of "run2 [Lead_new ''551199'' ''Ana'' ''oi'' ''ads'' 1000,
               Checkpoint_activate ''551199'' ''confirm_interest'' (Some 1) 2000] (init2 0)"
        "''551199''"
        "the (map_of (conversationState (run2
           [Lead_new ''551199'' ''Ana'' ''oi'' ''ads'' 1000,
            Checkpoint_activate ''551199'' ''confirm_interest'' (Some 1) 2000]
           (init2 0))) ''551199'')"
        "''confirm_interest''" 62000
        "run1 [Start_conversation ''551199'' (Some ''Ana'') 1000,
               Activate_checkpoint ''551199'' ''confirm_interest'' None None 2000] (init1 0)"
        "''551199''"
        "the (map_of (conversationState1 (run1
           [Start_conversation ''551199'' (Some ''Ana'') 1000,
            Activate_checkpoint ''551199'' ''confirm_interest'' None None 2000]
           (init1 0))) ''551199'')"
        86402001 0]
  by code_simp

subsection \<open>C2: a timeout after the response\<close>

text \<open>
  Claim C2 says that the timeout handler does nothing once a response has resolved the
  checkpoint.  The theorem evaluates \<^verbatim>\<open>handleCheckpointTimeout\<close> of the variant with
  timers where the claim fails.  After an activation of \<open>menu\<close> and a response, the
  conversation is not waiting, its status is active and its current checkpoint is still
  \<open>menu\<close>; the guard of the handler compares the current checkpoint only, so a call for
  this client and checkpoint sets the status to timeout, counts a timeout on the
  instance and emits a \<open>checkpoint_timeout\<close> notification.  The last four conjuncts are
  a run of the server in which this call happens: the keys of the map of pending
  timeouts are the strings \<open>phone_checkpoint\<close>, so client \<open>5511\<close> at checkpoint \<open>9_menu\<close>
  and client \<open>5511_9\<close> at checkpoint \<open>menu\<close> share a key; the second activation
  overwrites the handle of the first, the response of \<open>5511\<close> cancels the timer of the
  other client, and the timer of \<open>5511\<close> stays armed and fires after the response.
\<close>

theorem timeout_after_resolve_runs:
  "map_option (\<lambda>cv. (c2_waiting_response cv, c2_status cv, c2_current_checkpoint cv))
     (map_of (conversationState (run2
       [Lead_new ''5511'' ''Ana'' ''oi'' ''ads'' 1000,
        Checkpoint_activate ''5511'' ''menu'' (Some 1) 2000,
        Webhook2 ''5511@s.whatsapp.net'' False ''yes'' 5000]
       (init2 0))) ''5511'') = Some (False, Active, Some ''menu'') \<and>
   map_option (\<lambda>cv. (c2_waiting_response cv, c2_status cv, c2_current_checkpoint cv))
     (map_of (conversationState (handleCheckpointTimeout ''5511'' ''menu'' 62000 (run2
       [Lead_new ''5511'' ''Ana'' ''oi'' ''ads'' 1000,
        Checkpoint_activate ''5511'' ''menu'' (Some 1) 2000,
        Webhook2 ''5511@s.whatsapp.net'' False ''yes'' 5000]
       (init2 0)))) ''5511'') = Some (False, Timeout, Some ''menu'') \<and>
   map_option i2_timeouts (map_of (instanceStats (handleCheckpointTimeout ''5511'' ''menu'' 62000 (run2
       [Lead_new ''5511'' ''Ana'' ''oi'' ''ads'' 1000,
        Checkpoint_activate ''5511'' ''menu'' (Some 1) 2000,
        Webhook2 ''5511@s.whatsapp.net'' False ''yes'' 5000]
       (init2 0)))) ''G08'') = Some 1 \<and>
   last (notified (handleCheckpointTimeout ''5511'' ''menu'' 62000 (run2
       [Lead_new ''5511'' ''Ana'' ''oi'' ''ads'' 1000,
        Checkpoint_activate ''5511'' ''menu'' (Some 1) 2000,
        Webhook2 ''5511@s.whatsapp.net'' False ''yes'' 5000]
       (init2 0)))) = Checkpoint_timeout ''5511'' ''menu'' ''G08'' \<and>
   map_option (\<lambda>cv. (c2_waiting_response cv, c2_status cv, c2_current_checkpoint cv))
     (map_of (conversationState (run2
       [Lead_new ''5511'' ''Ana'' ''oi'' ''ads'' 1000,
        Lead_new ''5511_9'' ''Bia'' ''oi'' ''ads'' 1000,
        Checkpoint_activate ''5511'' ''9_menu'' (Some 1) 2000,
        Checkpoint_activate ''5511_9'' ''menu'' (Some 1) 3000,
        Webhook2 ''5511@s.whatsapp.net'' False ''yes'' 5000]
       (init2 0))) ''5511'') = Some (False, Active, Some ''9_menu'') \<and>
   map_option t_checkpoint (map_of (armedTimers (run2
       [Lead_new ''5511'' ''Ana'' ''oi'' ''ads'' 1000,
        Lead_new ''5511_9'' ''Bia'' ''oi'' ''ads'' 1000,
        Checkpoint_activate ''5511'' ''9_menu'' (Some 1) 2000,
        Checkpoint_activate ''5511_9'' ''menu'' (Some 1) 3000,
        Webhook2 ''5511@s.whatsapp.net'' False ''yes'' 5000]
       (init2 0))) 0) = Some ''9_menu'' \<and>
   map_option (\<lambda>cv. (c2_waiting_response cv, c2_status cv, c2_current_checkpoint cv))
     (map_of (conversationState (run2
       [Lead_new ''5511'' ''Ana'' ''oi'' ''ads'' 1000,
        Lead_new ''5511_9'' ''Bia'' ''oi'' ''ads'' 1000,
        Checkpoint_activate ''5511'' ''9_menu'' (Some 1) 2000,
        Checkpoint_activate ''5511_9'' ''menu'' (Some 1) 3000,
        Webhook2 ''5511@s.whatsapp.net'' False ''yes'' 5000,
        Timer_fired 0 62000]
       (init2 0))) ''5511'') = Some (False, Timeout, Some ''9_menu'') \<and>
   last (notified (run2
       [Lead_new ''5511'' ''Ana'' ''oi'' ''ads'' 1000,
        Lead_new ''5511_9'' ''Bia'' ''oi'' ''ads'' 1000,
        Checkpoint_activate ''5511'' ''9_menu'' (Some 1) 2000,
        Checkpoint_activate ''5511_9'' ''menu'' (Some 1) 3000,
        Webhook2 ''5511@s.whatsapp.net'' False ''yes'' 5000,
        Timer_fired 0 62000]
       (init2 0))) = Checkpoint_timeout ''5511'' ''9_menu'' ''G08''"
  by code_simp

subsection \<open>C6: the map of pending timeouts\<close>

text \<open>
  Claim C6 says that the association of a client and a checkpoint with its timer is
  removed when the checkpoint is resolved and when the timer fires.  The theorem
  evaluates a run of the variant with timers where the claim fails: a lead, an
  activation with a timeout of one minute, and the firing of the timer.  After the
  firing the timer is no longer armed, the conversation is not waiting and its status
  is timeout, and the key of the client and the checkpoint is still in
  \<^verbatim>\<open>checkpointTimeouts\<close>, bound to the handle of the fired timer:
  \<^verbatim>\<open>handleCheckpointTimeout\<close> does not delete it.
\<close>

theorem fired_timer_stays_registered:
  "map_of (checkpointTimeouts (run2
       [Lead_new ''551199'' ''Ana'' ''oi'' ''ads'' 1000,
        Checkpoint_activate ''551199'' ''confirm_interest'' (Some 1) 2000,
        Timer_fired 0 62000]
       (init2 0))) ''551199_confirm_interest'' = Some 0 \<and>
   map_of (armedTimers (run2
       [Lead_new ''551199'' ''Ana'' ''oi'' ''ads'' 1000,
        Checkpoint_activate ''551199'' ''confirm_interest'' (Some 1) 2000,
        Timer_fired 0 62000]
       (init2 0))) 0 = None \<and>
   map_option (\<lambda>cv. (c2_waiting_response cv, c2_status cv))
     (map_of (conversationState (run2
       [Lead_new ''551199'' ''Ana'' ''oi'' ''ads'' 1000,
        Checkpoint_activate ''551199'' ''confirm_interest'' (Some 1) 2000,
        Timer_fired 0 62000]
       (init2 0))) ''551199'') = Some (False, Timeout) \<and>
   length (checkpointTimeouts (run2
       [Lead_new ''551199'' ''Ana'' ''oi'' ''ads'' 1000,
        Checkpoint_activate ''551199'' ''confirm_interest'' (Some 1) 2000,
        Timer_fired 0 62000]
       (init2 0))) = 1"
  by code_simp

subsection \<open>C7: what a pass of the sweeper deletes\<close>

text \<open>
  Claim C7, as amended.  First conjunct, the variant with timers: a pass of
  \<^verbatim>\<open>cleanupOldData\<close> over a store with distinct keys leaves exactly the conversations
  whose last activity is within the retention horizon of 72 hours, unchanged and in
  their order.  Second conjunct: for a conversation that the pass deletes and whose key
  in the map of pending timeouts is bound to the timer armed for this conversation and
  its current checkpoint, this timer is no longer armed after the pass and the key is
  no longer in the map.  Third conjunct, index.js: a pass of
  \<^verbatim>\<open>cleanupExpiredCheckpoints\<close> deletes exactly the conversations that were created
  more than 48 hours before, whatever their last activity; a conversation it keeps is
  unchanged, unless it was waiting past its deadline, in which case it is expired.
\<close>

theorem sweeper_deletes_stale:
  "(distinct (map fst (conversationState s)) \<longrightarrow>
      conversationState (cleanupOldData now s) =
        filter (\<lambda>e. \<not> (now - c2_last_activity (snd e) > DATA_RETENTION_TIME2))
          (conversationState s)) \<and>
   ((p, cv) \<in> set (conversationState s) \<and>
    now - c2_last_activity cv > DATA_RETENTION_TIME2 \<and>
    map_of (checkpointTimeouts s) (timeoutKey p (c2_current_checkpoint cv)) = Some tid \<and>
    map_of (armedTimers s) tid = Some tmr \<and> t_phone tmr = p \<and>
    c2_current_checkpoint cv = Some (t_checkpoint tmr) \<longrightarrow>
      map_of (armedTimers (cleanupOldData now s)) tid = None \<and>
      map_of (checkpointTimeouts (cleanupOldData now s))
        (timeoutKey p (c2_current_checkpoint cv)) = None) \<and>
   (distinct (map fst (conversationState1 s1)) \<longrightarrow>
      map_of (conversationState1 (cleanupExpiredCheckpoints now1 s1)) c =
        (case map_of (conversationState1 s1) c of
           None \<Rightarrow> None
         | Some st \<Rightarrow>
             if now1 - c1_created_at st > DATA_RETENTION_TIME1 then None
             else Some (if now1 > c1_expires_at st \<and> c1_waiting_for_response st
                        then st\<lparr>c1_status := Expired, c1_waiting_for_response := False,
                                c1_current_checkpoint := None\<rparr>
                        else st)))"
proof (intro conjI impI)
  assume "distinct (map fst (conversationState s))"
  then show "conversationState (cleanupOldData now s) =
        filter (\<lambda>e. \<not> (now - c2_last_activity (snd e) > DATA_RETENTION_TIME2))
          (conversationState s)"
    by (rule cleanupOldData_filter)
next
  assume a: "(p, cv) \<in> set (conversationState s) \<and>
    now - c2_last_activity cv > DATA_RETENTION_TIME2 \<and>
    map_of (checkpointTimeouts s) (timeoutKey p (c2_current_checkpoint cv)) = Some tid \<and>
    map_of (armedTimers s) tid = Some tmr \<and> t_phone tmr = p \<and>
    c2_current_checkpoint cv = Some (t_checkpoint tmr)"
  then have m: "(p, cv) \<in> set (conversationState s)"
    and o: "now - c2_last_activity cv > DATA_RETENTION_TIME2"
    and k: "map_of (checkpointTimeouts s) (timeoutKey p (c2_current_checkpoint cv)) = Some tid"
    by blast+
  from m o k show "map_of (armedTimers (cleanupOldData now s)) tid = None"
    by (rule cleanupOldData_timers(2))
  from m o show "map_of (checkpointTimeouts (cleanupOldData now s))
        (timeoutKey p (c2_current_checkpoint cv)) = None"
    by (rule cleanupOldData_timers(1))
next
  assume "distinct (map fst (conversationState1 s1))"
  then show "map_of (conversationState1 (cleanupExpiredCheckpoints now1 s1)) c =
        (case map_of (conversationState1 s1) c of
           None \<Rightarrow> None
         | Some st \<Rightarrow>
             if now1 - c1_created_at st > DATA_RETENTION_TIME1 then None
             else Some (if now1 > c1_expires_at st \<and> c1_waiting_for_response st
                        then st\<lparr>c1_status := Expired, c1_waiting_for_response := False,
                                c1_current_checkpoint := None\<rparr>
                        else st))"
    by (simp add: cleanupExpiredCheckpoints_map after1_def split: option.splits)
qed

text \<open>The claim fails in index.js on a conversation that was active two hours before
  the pass and was created 49 hours before it (first three conjuncts).  It fails in
  the variant with timers where two clients share a key of the map of pending timeouts
  (\<open>5511\<close> at \<open>9_menu\<close> and \<open>5511_9\<close> at \<open>menu\<close>, as in the theorem for claim C2): the pass
  deletes the stale conversation of \<open>5511\<close>, whose timer stays armed, and cancels the
  timer of the conversation of \<open>5511_9\<close>, which it keeps and which is still waiting.\<close>

theorem sweeper_by_creation_counterexample:
  "map_option c1_last_activity (map_of (conversationState1 (run1
       [Start_conversation ''551199'' (Some ''Ana'') 1000,
        Activate_checkpoint ''551199'' ''confirm_interest'' None None 169200000]
       (init1 0))) ''551199'') = Some 169200000 \<and>
   \<not> (176400000 - 169200000 > DATA_RETENTION_TIME1) \<and>
   map_of (conversationState1 (run1
       [Start_conversation ''551199'' (Some ''Ana'') 1000,
        Activate_checkpoint ''551199'' ''confirm_interest'' None None 169200000,
        Cleanup1 176400000]
       (init1 0))) ''551199'' = None \<and>
   map (\<lambda>e. (fst e, t_phone (snd e), t_checkpoint (snd e))) (armedTimers (run2
       [Lead_new ''5511'' ''Ana'' ''oi'' ''ads'' 1000,
        Lead_new ''5511_9'' ''Bia'' ''oi'' ''ads'' 1000,
        Checkpoint_activate ''5511'' ''9_menu'' (Some 10000) 2000,
        Checkpoint_activate ''5511_9'' ''menu'' (Some 10000) 200000000]
       (init2 0))) = [(0, ''5511'', ''9_menu''), (1, ''5511_9'', ''menu'')] \<and>
   map (\<lambda>e. (fst e, c2_waiting_response (snd e), c2_current_checkpoint (snd e)))
     (conversationState (run2
       [Lead_new ''5511'' ''Ana'' ''oi'' ''ads'' 1000,
        Lead_new ''5511_9'' ''Bia'' ''oi'' ''ads'' 1000,
        Checkpoint_activate ''5511'' ''9_menu'' (Some 10000) 2000,
        Checkpoint_activate ''5511_9'' ''menu'' (Some 10000) 200000000,
        Cleanup2 259300000]
       (init2 0))) = [(''5511_9'', True, Some ''menu'')] \<and>
   map (\<lambda>e. (fst e, t_phone (snd e), t_checkpoint (snd e))) (armedTimers (run2
       [Lead_new ''5511'' ''Ana'' ''oi'' ''ads'' 1000,
        Lead_new ''5511_9'' ''Bia'' ''oi'' ''ads'' 1000,
        Checkpoint_activate ''5511'' ''9_menu'' (Some 10000) 2000,
        Checkpoint_activate ''5511_9'' ''menu'' (Some 10000) 200000000,
        Cleanup2 259300000]
       (init2 0))) = [(0, ''5511'', ''9_menu'')]"
  by code_simp

theorem sweeper_deletes_stale_witness:
  "distinct (map fst (conversationState (run2
       [Lead_new ''551199'' ''Ana'' ''oi'' ''ads'' 1000,
        Checkpoint_activate ''551199'' ''confirm_interest'' (Some 10000) 2000,
        Lead_new ''552288'' ''Bia'' ''oi'' ''ads'' 200000000] (init2 0)))) \<and>
   map (\<lambda>e. (fst e, c2_last_activity (snd e), c2_current_checkpoint (snd e)))
     (conversationState (run2
       [Lead_new ''551199'' ''Ana'' ''oi'' ''ads'' 1000,
        Checkpoint_activate ''551199'' ''confirm_interest'' (Some 10000) 2000,
        Lead_new ''552288'' ''Bia'' ''oi'' ''ads'' 200000000] (init2 0))) =
     [(''551199'', 2000, Some ''confirm_interest''), (''552288'', 200000000, None)] \<and>
   259300000 - 2000 > DATA_RETENTION_TIME2 \<and>
   map_of (checkpointTimeouts (run2
       [Lead_new ''551199'' ''Ana'' ''oi'' ''ads'' 1000,
        Checkpoint_activate ''551199'' ''confirm_interest'' (Some 10000) 2000,
        Lead_new ''552288'' ''Bia'' ''oi'' ''ads'' 200000000] (init2 0)))
     (timeoutKey ''551199'' (Some ''confirm_interest'')) = Some 0 \<and>
   map_of (armedTimers (run2
       [Lead_new ''551199'' ''Ana'' ''oi'' ''ads'' 1000,
        Checkpoint_activate ''551199'' ''confirm_interest'' (Some 10000) 2000,
        Lead_new ''552288'' ''Bia'' ''oi'' ''ads'' 200000000] (init2 0))) 0 =
     Some \<lparr>t_due = 600002000, t_phone = ''551199'', t_checkpoint = ''confirm_interest''\<rparr> \<and>
   map fst (conversationState (cleanupOldData 259300000 (run2
       [Lead_new ''551199'' ''Ana'' ''oi'' ''ads'' 1000,
        Checkpoint_activate ''551199'' ''confirm_interest'' (Some 10000) 2000,
        Lead_new ''552288'' ''Bia'' ''oi'' ''ads'' 200000000] (init2 0)))) = [''552288''] \<and>
   armedTimers (cleanupOldData 259300000 (run2
       [Lead_new ''551199'' ''Ana'' ''oi'' ''ads'' 1000,
        Checkpoint_activate ''551199'' ''confirm_interest'' (Some 10000) 2000,
        Lead_new ''552288'' ''Bia'' ''oi'' ''ads'' 200000000] (init2 0))) = [] \<and>
   distinct (map fst (conversationState1 (run1
       [Start_conversation ''551199'' (Some ''Ana'') 1000,
        Start_conversation ''552288'' (Some ''Bia'') 100000000] (init1 0)))) \<and>
   map_of (conversationState1 (cleanupExpiredCheckpoints 172802000 (run1
       [Start_conversation ''551199'' (Some ''Ana'') 1000,
        Start_conversation ''552288'' (Some ''Bia'') 100000000] (init1 0)))) ''551199'' = None"
proof -
  let ?s2 = "run2
       [Lead_new ''551199'' ''Ana'' ''oi'' ''ads'' 1000,
        Checkpoint_activate ''551199'' ''confirm_interest'' (Some 10000) 2000,
        Lead_new ''552288'' ''Bia'' ''oi'' ''ads'' 200000000] (init2 0)"
  let ?s1 = "run1
       [Start_conversation ''551199'' (Some ''Ana'') 1000,
        Start_conversation ''552288'' (Some ''Bia'') 100000000] (init1 0)"
  let ?cv = "the (map_of (conversationState ?s2) ''551199'')"
  let ?tmr = "\<lparr>t_due = 600002000, t_phone = ''551199'', t_checkpoint = ''confirm_interest''\<rparr>"
  have d2: "distinct (map fst (conversationState ?s2))" by code_simp
  have d1: "distinct (map fst (conversationState1 ?s1))" by code_simp
  have l2: "map (\<lambda>e. (fst e, c2_last_activity (snd e), c2_current_checkpoint (snd e)))
     (conversationState ?s2) =
     [(''551199'', 2000, Some ''confirm_interest''), (''552288'', 200000000, None)]"
    by code_simp
  have old: "259300000 - 2000 > DATA_RETENTION_TIME2" by code_simp
  have k2: "map_of (checkpointTimeouts ?s2)
     (timeoutKey ''551199'' (Some ''confirm_interest'')) = Some 0" by code_simp
  have t2: "map_of (armedTimers ?s2) 0 = Some ?tmr" by code_simp
  have h: "(''551199'', ?cv) \<in> set (conversationState ?s2) \<and>
    259300000 - c2_last_activity ?cv > DATA_RETENTION_TIME2 \<and>
    map_of (checkpointTimeouts ?s2) (timeoutKey ''551199'' (c2_current_checkpoint ?cv)) = Some 0 \<and>
    map_of (armedTimers ?s2) 0 = Some ?tmr \<and> t_phone ?tmr = ''551199'' \<and>
    c2_current_checkpoint ?cv = Some (t_checkpoint ?tmr)"
    by code_simp
  from sweeper_deletes_stale[of ?s2 259300000 "''551199''" ?cv 0 ?tmr ?s1 172802000 "''551199''"]
    d2 d1 h
  have c2: "conversationState (cleanupOldData 259300000 ?s2) =
        filter (\<lambda>e. \<not> (259300000 - c2_last_activity (snd e) > DATA_RETENTION_TIME2))
          (conversationState ?s2)"
    and a2: "map_of (armedTimers (cleanupOldData 259300000 ?s2)) 0 = None"
    and c1: "map_of (conversationState1 (cleanupExpiredCheckpoints 172802000 ?s1)) ''551199'' =
        (case map_of (conversationState1 ?s1) ''551199'' of
           None \<Rightarrow> None
         | Some st \<Rightarrow>
             if 172802000 - c1_created_at st > DATA_RETENTION_TIME1 then None
             else Some (if 172802000 > c1_expires_at st \<and> c1_waiting_for_response st
                        then st\<lparr>c1_status := Expired, c1_waiting_for_response := False,
                                c1_current_checkpoint := None\<rparr>
                        else st))"
    by blast+
  have e2: "map fst (filter (\<lambda>e. \<not> (259300000 - c2_last_activity (snd e) > DATA_RETENTION_TIME2))
          (conversationState ?s2)) = [''552288'']" by code_simp
  have e1: "(case map_of (conversationState1 ?s1) ''551199'' of
           None \<Rightarrow> None
         | Some st \<Rightarrow>
             if 172802000 - c1_created_at st > DATA_RETENTION_TIME1 then None
             else Some (if 172802000 > c1_expires_at st \<and> c1_waiting_for_response st
                        then st\<lparr>c1_status := Expired, c1_waiting_for_response := False,
                                c1_current_checkpoint := None\<rparr>
                        else st)) = None" by code_simp
  have a2': "armedTimers (cleanupOldData 259300000 ?s2) = []" by code_simp
  show ?thesis
    unfolding c2 c1 using d2 d1 l2 old k2 t2 e2 e1 a2' by (intro conjI)
qed

subsection \<open>C10: the first contact of a client\<close>

text \<open>
  Claim C10, as amended.  First conjunct, the variant with timers: an inbound message
  that is not an echo and whose text is not blank (it is not made of the white space
  and line terminators of ECMAScript only, which \<^verbatim>\<open>trim\<close> strips), from a client with
  no conversation, creates a conversation for this client, assigned to the instance
  that \<^verbatim>\<open>getNextInstance\<close> selects.  Second conjunct, the variant with timers: a
  message whose text is blank changes nothing.  Third conjunct, index.js: an inbound
  message from a client with no conversation leaves the store as it is.  Fourth
  conjunct, index.js: the conversation of a client is created by its first
  \<^verbatim>\<open>POST /api/start-conversation\<close>, assigned to the instance that \<^verbatim>\<open>getBestInstance\<close>
  selects.
\<close>

theorem first_contact_creates:
  "(\<not> fromMe \<and> \<not> trim_empty tx \<and> INSTANCES s \<noteq> [] \<and>
    map_of (conversationState s) (replace_first ''@s.whatsapp.net'' jid) = None \<longrightarrow>
      fst (getNextInstance now s) \<noteq> None \<and>
      map_of (conversationState (webhook_evolution2 jid fromMe tx now s))
          (replace_first ''@s.whatsapp.net'' jid) =
        map_option
          (\<lambda>i. \<lparr>c2_phone = replace_first ''@s.whatsapp.net'' jid, c2_name = ''Cliente'',
                 c2_instance = inst_name i, c2_instance_id = inst_id i,
                 c2_source = ''whatsapp_direto'', c2_current_checkpoint = None,
                 c2_checkpoints = [], c2_waiting_response = False,
                 c2_checkpoint_activated_at = None, c2_created_at = now,
                 c2_last_activity = now, c2_status = Active\<rparr>)
          (fst (getNextInstance now s))) \<and>
   (trim_empty txb \<longrightarrow> webhook_evolution2 jidb fromMeb txb nowb sb = sb) \<and>
   (map_of (conversationState1 s1) (replace_first ''@s.whatsapp.net'' jid1) = None \<longrightarrow>
      conversationState1 (webhook_evolution1 jid1 fromMe1 tx1 now1 s1) = conversationState1 s1) \<and>
   (p \<noteq> [] \<and> map_of (conversationState1 s1) p = None \<longrightarrow>
      map_of (conversationState1 (api_start_conversation p nm now1 s1)) p =
        Some (createConversationState p
               (case nm of None \<Rightarrow> ''Cliente'' | Some n \<Rightarrow> if n = [] then ''Cliente'' else n)
               (fst (getBestInstance now1 s1)) now1))"
proof (intro conjI impI)
  assume a: "\<not> fromMe \<and> \<not> trim_empty tx \<and> INSTANCES s \<noteq> [] \<and>
    map_of (conversationState s) (replace_first ''@s.whatsapp.net'' jid) = None"
  then show "fst (getNextInstance now s) \<noteq> None"
    by (simp add: getNextInstance_Some)
  then obtain i where i: "fst (getNextInstance now s) = Some i" by blast
  from a i show "map_of (conversationState (webhook_evolution2 jid fromMe tx now s))
          (replace_first ''@s.whatsapp.net'' jid) =
        map_option
          (\<lambda>i. \<lparr>c2_phone = replace_first ''@s.whatsapp.net'' jid, c2_name = ''Cliente'',
                 c2_instance = inst_name i, c2_instance_id = inst_id i,
                 c2_source = ''whatsapp_direto'', c2_current_checkpoint = None,
                 c2_checkpoints = [], c2_waiting_response = False,
                 c2_checkpoint_activated_at = None, c2_created_at = now,
                 c2_last_activity = now, c2_status = Active\<rparr>)
          (fst (getNextInstance now s))"
    by (simp add: webhook_evolution2_map Let_def createConversation_result getNextInstance_addLog)
next
  assume "trim_empty txb"
  then show "webhook_evolution2 jidb fromMeb txb nowb sb = sb"
    by (simp add: webhook_evolution2_def Let_def)
next
  assume "map_of (conversationState1 s1) (replace_first ''@s.whatsapp.net'' jid1) = None"
  then show "conversationState1 (webhook_evolution1 jid1 fromMe1 tx1 now1 s1) = conversationState1 s1"
    by (simp add: webhook_evolution1_convs processClientResponse_def)
next
  assume "p \<noteq> [] \<and> map_of (conversationState1 s1) p = None"
  then show "map_of (conversationState1 (api_start_conversation p nm now1 s1)) p =
        Some (createConversationState p
               (case nm of None \<Rightarrow> ''Cliente'' | Some n \<Rightarrow> if n = [] then ''Cliente'' else n)
               (fst (getBestInstance now1 s1)) now1)"
    by (simp add: api_start_conversation_convs update_conv')
qed

theorem webhook_creates_nothing_counterexample:
  "\<not> trim_empty ''oi'' \<and>
   map_of (conversationState1 (init1 0)) (replace_first ''@s.whatsapp.net'' ''551199@s.whatsapp.net'') = None \<and>
   conversationState1 (webhook_evolution1 ''551199@s.whatsapp.net'' False ''oi'' 1000 (init1 0)) = []"
  by code_simp

text \<open>In the witness the blank text is a tab, a no-break space (U+00A0, the bytes
  \<open>C2 A0\<close>) and a line separator (U+2028, the bytes \<open>E2 80 A8\<close>).\<close>

theorem first_contact_creates_witness:
  "\<not> trim_empty ''oi'' \<and> INSTANCES (init2 0) \<noteq> [] \<and>
   map_of (conversationState (init2 0)) (replace_first ''@s.whatsapp.net'' ''551199@s.whatsapp.net'') = None \<and>
   map_option c2_instance (map_of (conversationState
      (webhook_evolution2 ''551199@s.whatsapp.net'' False ''oi'' 1000 (init2 0))) ''551199'') = Some ''G08'' \<and>
   trim_empty [CHR 0x09, CHR 0xC2, CHR 0xA0, CHR 0xE2, CHR 0x80, CHR 0xA8] \<and>
   conversationState (webhook_evolution2 ''551199@s.whatsapp.net'' False
      [CHR 0x09, CHR 0xC2, CHR 0xA0, CHR 0xE2, CHR 0x80, CHR 0xA8] 1000 (init2 0)) = [] \<and>
   map_of (conversationState1 (init1 0)) ''551199'' = None \<and>
   map_option c1_instance (map_of (conversationState1
      (api_start_conversation ''551199'' None 1000 (init1 0))) ''551199'') = Some ''G01''"
  using first_contact_creates
    [of False "''oi''" "init2 0" "''551199@s.whatsapp.net''" 1000
        "[CHR 0x09, CHR 0xC2, CHR 0xA0, CHR 0xE2, CHR 0x80, CHR 0xA8]"
        "''551199@s.whatsapp.net''" False 1000 "init2 0"
        "init1 0" "''551199@s.whatsapp.net''" False "''oi''" 1000 "''551199''" None]
  by code_simp

subsection \<open>C8: the scored selection\<close>




subsection \<open>C9: blocked instances and the fallback\<close>




end
